theory Spec2Isabelle
  imports Complex_Main "HOL-Library.Char_ord" "HOL-Library.List_Lexorder"
    "HOL-Library.Product_Lexorder"
begin

section \<open>Kimai pipeline: break detection\<close>

text \<open>
  Embedding of \<open>KimaiExtractor.calculate_breaks_from_raw_data\<close>
  (kimai_payroll_engineering.py).

  Kimai reports \<open>begin\<close> and \<open>end\<close> to the second, so an instant is an integer count of
  seconds since the epoch (UTC) and a \<open>timedelta\<close> is an integer count of seconds. The
  time zone database behind \<open>tz_convert('US/Eastern')\<close> is a parameter \<open>tz\<close>: the UTC
  offset, in seconds, in force at an instant. Python's \<open>round\<close> works on binary floating
  point, which is not modelled: it is the parameter \<open>rnd\<close> (\<open>rnd n x\<close> for
  \<open>round(x, n)\<close>), and the quotients it is applied to are exact rationals.
\<close>

type_synonym instant = int
type_synonym zone = "instant \<Rightarrow> int"
type_synonym rounding = "nat \<Rightarrow> rat \<Rightarrow> rat"

text \<open>A row of the Timesheets frame: \<open>user\<close> and \<open>project\<close> after \<open>astype(str)\<close>,
  \<open>begin_dt\<close> and \<open>end_dt\<close> after \<open>pd.to_datetime(..., errors='coerce', utc=True)\<close>,
  where \<open>None\<close> is \<open>NaT\<close>, the activity id, and the duration in seconds (\<open>None\<close>
  where the API sends none).\<close>

record raw_timesheet =
  user :: string
  begin_dt :: "instant option"
  end_dt :: "instant option"
  project :: string
  activity :: int
  duration :: "int option"

text \<open>A row that survived \<open>dropna(subset=['begin_local', 'end_local'])\<close>.\<close>

record entry =
  user_id :: string
  begin_local :: instant
  end_local :: instant

record user_row =
  uid :: string
  alias_name :: "string option"

record break_detail =
  break_start :: string
  break_end :: string
  break_duration_hours :: rat
  break_duration_minutes :: rat

record break_record =
  br_user :: "string option"
  br_user_id :: string
  br_date :: int
  total_breaks :: nat
  total_break_hours :: rat
  total_break_minutes :: rat
  break_details :: "break_detail list"
  first_work_start :: string
  last_work_end :: string
  total_work_entries :: nat

text \<open>\<open>Timestamp.hour\<close> and \<open>Timestamp.date()\<close> of a zone-aware timestamp: the wall clock
  of the zone. The date is a day number (days since the epoch).\<close>

definition wall_clock :: "zone \<Rightarrow> instant \<Rightarrow> int" where
  "wall_clock tz t = t + tz t"

definition hour :: "zone \<Rightarrow> instant \<Rightarrow> int" where
  "hour tz t = (wall_clock tz t div 3600) mod 24"

definition date_only :: "zone \<Rightarrow> instant \<Rightarrow> int" where
  "date_only tz t = wall_clock tz t div 86400"

definition pad2 :: "nat \<Rightarrow> string" where
  "pad2 n = [''0123456789'' ! (n div 10 mod 10), ''0123456789'' ! (n mod 10)]"

text \<open>\<open>strftime('%H:%M:%S')\<close>.\<close>

definition strftime_HMS :: "zone \<Rightarrow> instant \<Rightarrow> string" where
  "strftime_HMS tz t =
     (let s = nat (wall_clock tz t mod 86400)
      in pad2 (s div 3600) @ '':'' @ pad2 (s div 60 mod 60) @ '':'' @ pad2 (s mod 60))"

text \<open>\<open>dict(zip(keys, values))\<close>: a later pair overwrites an earlier one with the same key.\<close>

definition dict_zip :: "'k list \<Rightarrow> 'v list \<Rightarrow> ('k \<rightharpoonup> 'v)" where
  "dict_zip ks vs = map_of (rev (zip ks vs))"

definition dropna :: "raw_timesheet list \<Rightarrow> entry list" where
  "dropna rows =
     List.map_filter
       (\<lambda>r. case (begin_dt r, end_dt r) of
              (Some b, Some e) \<Rightarrow> Some \<lparr>user_id = user r, begin_local = b, end_local = e\<rparr>
            | _ \<Rightarrow> None)
       rows"

text \<open>\<open>DataFrame.groupby(keys)\<close> with its defaults: one group per distinct key, the groups
  in ascending key order, the rows of a group in frame order.\<close>

definition groupby :: "('r \<Rightarrow> 'k::linorder) \<Rightarrow> 'r list \<Rightarrow> ('k \<times> 'r list) list" where
  "groupby key rows =
     map (\<lambda>k. (k, filter (\<lambda>r. key r = k) rows)) (sort (remdups (map key rows)))"

text \<open>The inner loop \<open>for i in range(len(group) - 1)\<close> over the sorted group, with its two
  accumulators \<open>daily_breaks\<close> and \<open>total_break_time\<close>.\<close>

fun find_gaps ::
  "zone \<Rightarrow> rounding \<Rightarrow> entry list \<Rightarrow> break_detail list \<times> int \<Rightarrow> break_detail list \<times> int"
where
  "find_gaps tz rnd (cur # nxt # rest) (daily_breaks, total_break_time) =
     (let current_end = end_local cur;
          next_begin = begin_local nxt;
          gap = next_begin - current_end
      in find_gaps tz rnd (nxt # rest)
           (if 300 \<le> gap \<and> gap \<le> 3600 then
              if 10 \<le> hour tz current_end \<and> hour tz current_end \<le> 16 \<and>
                 10 \<le> hour tz next_begin \<and> hour tz next_begin \<le> 16
              then (daily_breaks @
                      [\<lparr>break_start = strftime_HMS tz current_end,
                        break_end = strftime_HMS tz next_begin,
                        break_duration_hours = rnd 2 (of_int gap / 3600),
                        break_duration_minutes = rnd 1 (of_int gap / 60)\<rparr>],
                    total_break_time + gap)
              else (daily_breaks, total_break_time)
            else (daily_breaks, total_break_time)))"
| "find_gaps tz rnd [cur] acc = acc"
| "find_gaps tz rnd [] acc = acc"

text \<open>The body of the loop over the groups: \<open>None\<close> is \<open>continue\<close> or an empty
  \<open>daily_breaks\<close>, \<open>Some\<close> the record appended to \<open>break_records\<close>. The group is sorted
  by \<open>begin_local\<close>; rows with equal keys keep their frame order here (pandas leaves
  their order open). \<open>hd\<close> and \<open>last\<close> are read only where the group has two rows.\<close>

definition group_record ::
  "zone \<Rightarrow> rounding \<Rightarrow> (string \<rightharpoonup> string option) \<Rightarrow> string \<times> int \<Rightarrow> entry list
     \<Rightarrow> break_record option"
where
  "group_record tz rnd id_to_alias k rows =
     (let user_alias = (case id_to_alias (fst k) of
                          None \<Rightarrow> Some (''User_'' @ fst k) | Some a \<Rightarrow> a);
          grp = sort_key begin_local rows
      in if length grp < 2 then None
         else
           (let (daily_breaks, total_break_time) = find_gaps tz rnd grp ([], 0)
            in if daily_breaks = [] then None
               else Some
                 \<lparr>br_user = user_alias,
                  br_user_id = fst k,
                  br_date = snd k,
                  total_breaks = length daily_breaks,
                  total_break_hours = rnd 2 (of_int total_break_time / 3600),
                  total_break_minutes = rnd 1 (of_int total_break_time / 60),
                  break_details = daily_breaks,
                  first_work_start = strftime_HMS tz (begin_local (hd grp)),
                  last_work_end = strftime_HMS tz (end_local (last grp)),
                  total_work_entries = length grp\<rparr>))"

definition calculate_breaks_from_raw_data ::
  "zone \<Rightarrow> rounding \<Rightarrow> raw_timesheet list \<Rightarrow> user_row list \<Rightarrow> break_record list"
where
  "calculate_breaks_from_raw_data tz rnd raw_timesheets users =
     (let id_to_alias = dict_zip (map uid users) (map alias_name users)
      in List.map_filter (\<lambda>(k, grp). group_record tz rnd id_to_alias k grp)
           (groupby (\<lambda>e. (user_id e, date_only tz (begin_local e))) (dropna raw_timesheets)))"

text \<open>The break policy in the words of the specification: the gap between the end of one
  entry and the start of the next lasts 300 to 3600 seconds, and both boundary
  timestamps have a local hour from 10 to 16.\<close>

definition spec_gap :: "entry \<times> entry \<Rightarrow> int" where
  "spec_gap p = begin_local (snd p) - end_local (fst p)"

definition spec_is_break :: "zone \<Rightarrow> entry \<times> entry \<Rightarrow> bool" where
  "spec_is_break tz p =
     (spec_gap p \<in> {300..3600} \<and> hour tz (end_local (fst p)) \<in> {10..16} \<and>
      hour tz (begin_local (snd p)) \<in> {10..16})"

definition adjacent_pairs :: "'a list \<Rightarrow> ('a \<times> 'a) list" where
  "adjacent_pairs xs = zip xs (tl xs)"

definition spec_breaks :: "zone \<Rightarrow> entry list \<Rightarrow> (entry \<times> entry) list" where
  "spec_breaks tz grp = filter (spec_is_break tz) (adjacent_pairs grp)"

definition spec_detail :: "zone \<Rightarrow> rounding \<Rightarrow> entry \<times> entry \<Rightarrow> break_detail" where
  "spec_detail tz rnd p =
     \<lparr>break_start = strftime_HMS tz (end_local (fst p)),
      break_end = strftime_HMS tz (begin_local (snd p)),
      break_duration_hours = rnd 2 (of_int (spec_gap p) / 3600),
      break_duration_minutes = rnd 1 (of_int (spec_gap p) / 60)\<rparr>"

section \<open>Service Fusion pipeline: invoice matching and due dates\<close>

text \<open>
  Embedding of \<open>ServiceFusionExtractor.calculate_due_date\<close> and
  \<open>create_powerbi_summary\<close> (project-dashboard-ytd.py).

  The records of the API are dictionaries; here each key the code reads is a field, and
  \<open>None\<close> stands for a key that is absent. Totals are exact rationals (binary floating
  point is not modelled), dates are strings, as the API sends them.
\<close>

record invoice =
  inv_customer :: "string option"
  inv_total :: "rat option"
  inv_date :: "string option"
  inv_created_at :: "string option"

record job =
  j_id :: "int option"
  j_number :: "string option"
  j_description :: "string option"
  j_customer_id :: "int option"
  j_customer_name :: "string option"
  j_total :: "rat option"
  j_created_at :: "string option"
  j_start_date :: "string option"
  j_end_date :: "string option"
  j_category :: "string option"
  j_status :: "string option"
  j_payment_status :: "string option"
  j_date :: "string option"

record customer_row =
  cust_id :: "int option"
  cust_name :: "string option"
  cust_created_at :: "string option"
  cust_date :: "string option"

record all_data =
  customers :: "customer_row list"
  jobs :: "job list"
  estimates :: "job list"
  invoices :: "invoice list"

subsection \<open>Dates\<close>

text \<open>A naive \<open>datetime\<close>: the fields Python keeps.\<close>

record datetime =
  year :: nat
  month :: nat
  day :: nat
  hh :: nat
  mm :: nat
  ss :: nat
  microsecond :: nat

definition is_leap :: "nat \<Rightarrow> bool" where
  "is_leap y = (y mod 4 = 0 \<and> (y mod 100 \<noteq> 0 \<or> y mod 400 = 0))"

definition days_in_month :: "nat \<Rightarrow> nat \<Rightarrow> nat" where
  "days_in_month y m =
     (if m = 2 then (if is_leap y then 29 else 28)
      else if m \<in> {4, 6, 9, 11} then 30 else 31)"

text \<open>The day after a calendar day; adding \<open>timedelta(days=n)\<close> takes this step \<open>n\<close> times
  and leaves the time of day alone. \<open>datetime\<close> has no year after 9999: the addition
  raises \<open>OverflowError\<close> there, which is \<open>None\<close> here.\<close>

definition next_day :: "datetime \<Rightarrow> datetime" where
  "next_day d =
     (if day d < days_in_month (year d) (month d) then d\<lparr>day := day d + 1\<rparr>
      else if month d < 12 then d\<lparr>month := month d + 1, day := 1\<rparr>
      else d\<lparr>year := year d + 1, month := 1, day := 1\<rparr>)"

definition add_days :: "nat \<Rightarrow> datetime \<Rightarrow> datetime option" where
  "add_days n d = (let r = (next_day ^^ n) d in if year r > 9999 then None else Some r)"

text \<open>\<open>str.strip()\<close> on ASCII: the white space characters are 9 to 13, 28 to 31 and 32.\<close>

definition is_space :: "char \<Rightarrow> bool" where
  "is_space c = (let n = (of_char c :: nat) in (9 \<le> n \<and> n \<le> 13) \<or> (28 \<le> n \<and> n \<le> 32))"

definition strip :: "string \<Rightarrow> string" where
  "strip s = rev (dropWhile is_space (rev (dropWhile is_space s)))"

definition is_digit :: "char \<Rightarrow> bool" where
  "is_digit c = (c \<in> set ''0123456789'')"

definition digit_val :: "char \<Rightarrow> nat" where
  "digit_val c = of_char c - 48"

definition to_nat :: "string \<Rightarrow> nat" where
  "to_nat s = foldl (\<lambda>n c. 10 * n + digit_val c) 0 s"

text \<open>\<open>datetime.strptime(s, '%Y-%m-%d')\<close>. The directives are the regular expressions of
  \<open>_strptime\<close>: four digits for \<open>%Y\<close>; \<open>1[0-2]|0[1-9]|[1-9]\<close> for \<open>%m\<close>;
  \<open>3[0-1]|[1-2]\d|0[1-9]|[1-9]| [1-9]\<close> for \<open>%d\<close>; the whole string must match, and the
  fields must be a date of the calendar from year 1 on.\<close>

fun parse_month :: "string \<Rightarrow> nat option" where
  "parse_month [a, b] =
     (if a = CHR ''1'' \<and> b \<in> set ''012'' then Some (10 + digit_val b)
      else if a = CHR ''0'' \<and> b \<in> set ''123456789'' then Some (digit_val b)
      else None)"
| "parse_month [a] = (if a \<in> set ''123456789'' then Some (digit_val a) else None)"
| "parse_month s = None"

fun parse_day :: "string \<Rightarrow> nat option" where
  "parse_day [a, b] =
     (if a = CHR ''3'' \<and> b \<in> set ''01'' then Some (30 + digit_val b)
      else if a \<in> set ''12'' \<and> is_digit b then Some (10 * digit_val a + digit_val b)
      else if a \<in> set ''0 '' \<and> b \<in> set ''123456789'' then Some (digit_val b)
      else None)"
| "parse_day [a] = (if a \<in> set ''123456789'' then Some (digit_val a) else None)"
| "parse_day s = None"

definition strptime_Ymd :: "string \<Rightarrow> datetime option" where
  "strptime_Ymd s =
     (let ys = take 4 s; rest = drop 5 s;
          ms = takeWhile (\<lambda>c. c \<noteq> CHR ''-'') rest;
          ds = drop (length ms + 1) rest
      in if length ys = 4 \<and> list_all is_digit ys \<and> take 1 (drop 4 s) = ''-'' \<and>
            take 1 (drop (length ms) rest) = ''-''
         then (case (parse_month ms, parse_day ds) of
                 (Some m, Some d) \<Rightarrow>
                   if 1 \<le> to_nat ys \<and> d \<le> days_in_month (to_nat ys) m
                   then Some \<lparr>year = to_nat ys, month = m, day = d,
                               hh = 0, mm = 0, ss = 0, microsecond = 0\<rparr>
                   else None
               | _ \<Rightarrow> None)
         else None)"

text \<open>\<open>str.replace('Z', '+00:00')\<close>.\<close>

definition replace_Z :: "string \<Rightarrow> string" where
  "replace_Z s = concat (map (\<lambda>c. if c = CHR ''Z'' then ''+00:00'' else [c]) s)"

text \<open>The string \<open>strftime\<close> gives is kept as the format and the value it renders: what
  \<open>%Y\<close> writes for a year below 1000 depends on the platform's C library.\<close>

datatype rendered = Strftime string datetime

text \<open>\<open>calculate_due_date\<close>. \<open>datetime.fromisoformat\<close>, whose accepted syntax depends on
  the Python version, is the parameter \<open>fromisoformat\<close>: it gives the fields of the
  parsed value (\<open>replace(tzinfo=None)\<close> drops the offset and keeps the fields), or
  \<open>None\<close> where it raises. Every exception ends in \<open>return None\<close>.\<close>

definition calculate_due_date :: "(string \<Rightarrow> datetime option) \<Rightarrow> string option \<Rightarrow> rendered option" where
  "calculate_due_date fromisoformat invoice_date =
     (case invoice_date of
        None \<Rightarrow> None
      | Some raw \<Rightarrow>
          if raw = [] then None
          else
            (let date_str = strip raw;
                 invoice_dt =
                   (if CHR ''T'' \<in> set date_str then
                      (if CHR ''Z'' \<in> set date_str then fromisoformat (replace_Z date_str)
                       else fromisoformat date_str)
                    else strptime_Ymd (take 10 date_str))
             in case invoice_dt of
                  None \<Rightarrow> None
                | Some dt \<Rightarrow>
                    (case add_days 15 dt of
                       None \<Rightarrow> None
                     | Some due_dt \<Rightarrow>
                         if CHR ''T'' \<in> set date_str
                         then Some (Strftime ''%Y-%m-%dT%H:%M:%S+00:00'' due_dt)
                         else Some (Strftime ''%Y-%m-%d'' due_dt))))"

subsection \<open>The invoice matcher\<close>

text \<open>\<open>invoice.get('total', 0) or 0\<close> and \<open>job.get('total', 0) or 0\<close>.\<close>

definition total_or_0 :: "rat option \<Rightarrow> rat" where
  "total_or_0 t = (case t of None \<Rightarrow> 0 | Some v \<Rightarrow> v)"

text \<open>The loop \<open>for invoice in customer_invoices\<close> with its \<open>break\<close>; it runs only where
  \<open>job_total > 0\<close>.\<close>

fun amount_match :: "rat \<Rightarrow> invoice list \<Rightarrow> invoice option" where
  "amount_match job_total [] = None"
| "amount_match job_total (invoice # rest) =
     (let invoice_total = total_or_0 (inv_total invoice)
      in if invoice_total > 0 then
           (let ratio = \<bar>invoice_total - job_total\<bar> / job_total
            in if ratio \<le> 1 / 10 then Some invoice else amount_match job_total rest)
         else amount_match job_total rest)"

text \<open>\<open>x.get('date', '')\<close>, the sort key.\<close>

definition date_key :: "invoice \<Rightarrow> string" where
  "date_key x = (case inv_date x of None \<Rightarrow> [] | Some d \<Rightarrow> d)"

text \<open>\<open>sorted(xs, key=f, reverse=True)\<close>: Python reverses the list, sorts it stably in
  ascending order and reverses the result, so that equal keys keep their input order.
  Strings compare by code point, lexicographically.\<close>

definition sorted_reverse :: "('a \<Rightarrow> 'k::linorder) \<Rightarrow> 'a list \<Rightarrow> 'a list" where
  "sorted_reverse f xs = rev (sort_key f (rev xs))"

text \<open>The matching block of the job loop: the related invoice and the match method.\<close>

definition find_related_invoice :: "job \<Rightarrow> invoice list \<Rightarrow> invoice option \<times> string" where
  "find_related_invoice j customer_invoices =
     (if customer_invoices \<noteq> [] then
        (let job_total = total_or_0 (j_total j);
             (related_invoice, invoice_match_method) =
               (if job_total > 0 then
                  (case amount_match job_total customer_invoices of
                     Some invoice \<Rightarrow> (Some invoice, ''Amount Match'')
                   | None \<Rightarrow> (None, ''None''))
                else (None, ''None''))
         in if related_invoice = None \<and> customer_invoices \<noteq> [] then
              (case sorted_reverse date_key customer_invoices of
                 first # others \<Rightarrow> (Some first, ''Most Recent'')
               | [] \<Rightarrow> (related_invoice, invoice_match_method))
            else (related_invoice, invoice_match_method))
      else (None, ''None''))"

text \<open>The loop that builds \<open>invoices_by_customer\<close>.\<close>

definition add_invoice ::
  "(string \<rightharpoonup> invoice list) \<Rightarrow> invoice \<Rightarrow> (string \<rightharpoonup> invoice list)"
where
  "add_invoice m invoice =
     (case inv_customer invoice of
        None \<Rightarrow> m
      | Some customer \<Rightarrow>
          if customer = [] then m
          else m(customer \<mapsto> (case m customer of None \<Rightarrow> [] | Some xs \<Rightarrow> xs) @ [invoice]))"

definition invoices_by_customer :: "invoice list \<Rightarrow> (string \<rightharpoonup> invoice list)" where
  "invoices_by_customer invoices_data = foldl add_invoice Map.empty invoices_data"

record summary =
  Job_ID :: "int option"
  Job_Number :: "string option"
  Job_Name :: string
  Customer_ID :: "int option"
  Customer_Name :: string
  Job_Created_Date :: "string option"
  ECD_Estimated_Completion_Date :: "string option"
  Invoice_Date :: "string option"
  Invoice_ECD_Due_Date :: "rendered option"
  Job_Project_Value :: rat
  Invoice_Total :: "rat option"
  Business_Category :: string
  Job_Status :: "string option"
  Payment_Status :: "string option"
  Has_Related_Invoices :: bool
  Invoice_Count :: nat
  Invoice_Match_Method :: string

text \<open>The record of one job. \<open>job.get('customer_name', 'Unknown')\<close> and
  \<open>job.get('description', 'No Description')\<close> fall back on an absent key;
  \<open>job.get('category') or 'General'\<close> also on an empty string.\<close>

definition job_record ::
  "(string \<Rightarrow> datetime option) \<Rightarrow> (string \<rightharpoonup> invoice list) \<Rightarrow> job \<Rightarrow> summary"
where
  "job_record fromisoformat by_customer j =
     (let customer_name = (case j_customer_name j of None \<Rightarrow> ''Unknown'' | Some n \<Rightarrow> n);
          customer_invoices = (case by_customer customer_name of None \<Rightarrow> [] | Some xs \<Rightarrow> xs);
          (related_invoice, invoice_match_method) = find_related_invoice j customer_invoices
      in \<lparr>Job_ID = j_id j,
          Job_Number = j_number j,
          Job_Name = (case j_description j of None \<Rightarrow> ''No Description'' | Some d \<Rightarrow> d),
          Customer_ID = j_customer_id j,
          Customer_Name = customer_name,
          Job_Created_Date = j_created_at j,
          ECD_Estimated_Completion_Date = j_end_date j,
          Invoice_Date = (case related_invoice of None \<Rightarrow> None | Some i \<Rightarrow> inv_date i),
          Invoice_ECD_Due_Date =
            calculate_due_date fromisoformat
              (case related_invoice of None \<Rightarrow> None | Some i \<Rightarrow> inv_date i),
          Job_Project_Value = total_or_0 (j_total j),
          Invoice_Total = (case related_invoice of None \<Rightarrow> None | Some i \<Rightarrow> inv_total i),
          Business_Category =
            (case j_category j of None \<Rightarrow> ''General''
             | Some c \<Rightarrow> if c = [] then ''General'' else c),
          Job_Status = j_status j,
          Payment_Status = j_payment_status j,
          Has_Related_Invoices = (related_invoice \<noteq> None),
          Invoice_Count = length customer_invoices,
          Invoice_Match_Method = invoice_match_method\<rparr>)"

text \<open>The loop over the jobs, with \<open>processed_job_ids\<close> and \<open>summary_records\<close>. An id is
  remembered only where it is truthy (not absent, not 0).\<close>

fun summarise_jobs ::
  "(string \<Rightarrow> datetime option) \<Rightarrow> (string \<rightharpoonup> invoice list) \<Rightarrow> job list \<Rightarrow> int set
     \<Rightarrow> summary list \<Rightarrow> summary list"
where
  "summarise_jobs fromisoformat by_customer [] processed_job_ids summary_records =
     summary_records"
| "summarise_jobs fromisoformat by_customer (j # rest) processed_job_ids summary_records =
     (case j_id j of
        Some i \<Rightarrow>
          if i \<in> processed_job_ids
          then summarise_jobs fromisoformat by_customer rest processed_job_ids summary_records
          else summarise_jobs fromisoformat by_customer rest
                 (if i \<noteq> 0 then insert i processed_job_ids else processed_job_ids)
                 (summary_records @ [job_record fromisoformat by_customer j])
      | None \<Rightarrow>
          summarise_jobs fromisoformat by_customer rest processed_job_ids
            (summary_records @ [job_record fromisoformat by_customer j]))"

text \<open>\<open>DataFrame.drop_duplicates(subset=[key], keep='first')\<close>.\<close>

definition drop_duplicates :: "('a \<Rightarrow> 'k) \<Rightarrow> 'a list \<Rightarrow> 'a list" where
  "drop_duplicates key rows =
     foldl (\<lambda>kept r. if key r \<in> key ` set kept then kept else kept @ [r]) [] rows"

text \<open>Estimates stand in for jobs where there are no jobs; an estimate without a (truthy)
  \<open>end_date\<close> takes its \<open>start_date\<close>.\<close>

definition estimate_as_job :: "job \<Rightarrow> job" where
  "estimate_as_job e =
     (if j_end_date e = None \<or> j_end_date e = Some [] then e\<lparr>j_end_date := j_start_date e\<rparr>
      else e)"

text \<open>\<open>create_powerbi_summary\<close>: the rows of the frame it returns (no row: the empty
  frame). The final conversion of the four date columns by \<open>pd.to_datetime\<close> is not
  modelled: the fields keep the values of \<open>summary_records\<close>.\<close>

definition create_powerbi_summary :: "(string \<Rightarrow> datetime option) \<Rightarrow> all_data \<Rightarrow> summary list" where
  "create_powerbi_summary fromisoformat data =
     (let jobs_data =
            (if jobs data = [] \<and> estimates data \<noteq> [] then map estimate_as_job (estimates data)
             else jobs data)
      in if jobs_data = [] then []
         else drop_duplicates Job_ID
                (summarise_jobs fromisoformat (invoices_by_customer (invoices data)) jobs_data {} []))"




text \<open>The due date in the words of the claim: the date string is parsed (as a datetime
  where, stripped, it contains the letter \<open>T\<close>, else as a plain date from its first ten
  characters), 15 calendar days are added, and the result is rendered in the format of
  the input; there is no due date for a missing, empty or unparseable date, nor when
  the sum leaves the years \<open>datetime\<close> can hold.\<close>

definition spec_has_time :: "string \<Rightarrow> bool" where
  "spec_has_time raw = (CHR ''T'' \<in> set (strip raw))"

definition spec_parse :: "(string \<Rightarrow> datetime option) \<Rightarrow> string \<Rightarrow> datetime option" where
  "spec_parse fromisoformat raw =
     (if spec_has_time raw
      then fromisoformat (if CHR ''Z'' \<in> set (strip raw) then replace_Z (strip raw) else strip raw)
      else strptime_Ymd (take 10 (strip raw)))"

definition spec_due_date :: "(string \<Rightarrow> datetime option) \<Rightarrow> string option \<Rightarrow> rendered option" where
  "spec_due_date fromisoformat invoice_date =
     (case invoice_date of
        None \<Rightarrow> None
      | Some raw \<Rightarrow>
          (case (if raw = [] then None else spec_parse fromisoformat raw) of
             None \<Rightarrow> None
           | Some dt \<Rightarrow>
               if year ((next_day ^^ 15) dt) \<le> 9999
               then Some (Strftime (if spec_has_time raw then ''%Y-%m-%dT%H:%M:%S+00:00''
                                    else ''%Y-%m-%d'')
                            ((next_day ^^ 15) dt))
               else None))"

section \<open>Paginated extraction\<close>

subsection \<open>Kimai: the page loop of \<open>fetch_api_data\<close>\<close>

text \<open>
  What one \<open>requests.get\<close> gives the code: an exception, or a status code with the decoded
  body, \<open>Some rows\<close> where the JSON is a list and \<open>None\<close> otherwise (a body that does not
  decode raises, and the handler of the loop does what the \<open>else\<close> branch does: it stops).
\<close>

datatype 'r kimai_response = Kimai_raises | Kimai_http nat "'r list option"

text \<open>The loop \<open>while True\<close> over the pages of the Timesheets endpoint, with \<open>df_list\<close> and
  the list of the pages requested so far. Nothing in the loop bounds the page number,
  so the loop may run forever: \<open>None\<close> is the run that does not return.\<close>

partial_function (option) fetch_pages ::
  "(nat \<Rightarrow> 'r kimai_response) \<Rightarrow> nat \<Rightarrow> 'r list list \<Rightarrow> nat list
     \<Rightarrow> ('r list list \<times> nat list) option"
where
  "fetch_pages get page df_list requested =
     (case get page of
        Kimai_http status body \<Rightarrow>
          if status = 200 then
            (case body of
               Some data \<Rightarrow>
                 if data \<noteq> []
                 then fetch_pages get (page + 1) (df_list @ [data]) (requested @ [page])
                 else Some (df_list, requested @ [page])
             | None \<Rightarrow> Some (df_list, requested @ [page]))
          else Some (df_list, requested @ [page])
      | Kimai_raises \<Rightarrow> Some (df_list, requested @ [page]))"

text \<open>The branch of an endpoint that is not paginated: one request.\<close>

definition fetch_once :: "'r kimai_response \<Rightarrow> 'r list list" where
  "fetch_once response =
     (case response of
        Kimai_http status body \<Rightarrow>
          if status = 200 then
            (case body of Some data \<Rightarrow> if data \<noteq> [] then [data] else [] | None \<Rightarrow> [])
          else []
      | Kimai_raises \<Rightarrow> [])"

record activity_row =
  act_id :: int
  act_name :: "string option"

record project_row =
  proj_id :: string
  proj_name :: "string option"
  parentTitle :: "string option"

record kimai_api =
  timesheets_get :: "nat \<Rightarrow> raw_timesheet kimai_response"
  activities_get :: "activity_row kimai_response"
  projects_get :: "project_row kimai_response"
  users_get :: "user_row kimai_response"

text \<open>The dictionary \<open>dataframes\<close>: a key is present only where \<open>df_list\<close> is not empty.\<close>

record dataframes =
  Timesheets :: "raw_timesheet list option"
  Activities :: "activity_row list option"
  Projects :: "project_row list option"
  Users :: "user_row list option"

definition frame_of :: "'r list list \<Rightarrow> 'r list option" where
  "frame_of df_list = (if df_list \<noteq> [] then Some (concat df_list) else None)"

definition fetch_api_data :: "kimai_api \<Rightarrow> dataframes option" where
  "fetch_api_data api =
     (case fetch_pages (timesheets_get api) 1 [] [] of
        None \<Rightarrow> None
      | Some (df_list, requested) \<Rightarrow>
          Some \<lparr>Timesheets = frame_of df_list,
                Activities = frame_of (fetch_once (activities_get api)),
                Projects = frame_of (fetch_once (projects_get api)),
                Users = frame_of (fetch_once (users_get api))\<rparr>)"

text \<open>A page on which the Kimai loop goes on: status 200 and a list that is not empty.\<close>

definition goes_on :: "'r kimai_response \<Rightarrow> bool" where
  "goes_on response =
     (case response of
        Kimai_http status body \<Rightarrow>
          status = 200 \<and> (case body of Some data \<Rightarrow> data \<noteq> [] | None \<Rightarrow> False)
      | Kimai_raises \<Rightarrow> False)"

definition page_rows :: "'r kimai_response \<Rightarrow> 'r list" where
  "page_rows response =
     (case response of
        Kimai_http status body \<Rightarrow> (case body of Some data \<Rightarrow> data | None \<Rightarrow> [])
      | Kimai_raises \<Rightarrow> [])"

subsection \<open>Service Fusion: \<open>extract_with_forced_sort\<close>\<close>

text \<open>
  The two requests the code can send for an endpoint: a page with the parameter
  \<open>sort=-created_at\<close> (the parameter \<open>page\<close> is sent from page 2 on), and the retry of
  page 1 without parameters. A response is an exception or a status code with the
  decoded envelope (\<open>None\<close> where \<open>response.json()\<close> or reading the envelope raises).
\<close>

datatype sf_request = Sorted_page nat | Plain_page

record 'r sf_body =
  items :: "'r list"
  currentPage :: "nat option"
  pageCount :: "nat option"

datatype 'r sf_response = Sf_raises | Sf_http nat "'r sf_body option"

text \<open>The requests of one turn of the loop: \<open>None\<close> is a \<open>break\<close> (a status other than 200,
  an exception, a body that does not decode), with the requests sent.\<close>

definition request_page ::
  "(sf_request \<Rightarrow> 'r sf_response) \<Rightarrow> nat \<Rightarrow> 'r sf_body option \<times> sf_request list"
where
  "request_page get page =
     (case get (Sorted_page page) of
        Sf_raises \<Rightarrow> (None, [Sorted_page page])
      | Sf_http status body \<Rightarrow>
          if status \<noteq> 200 then
            (if page = 1 then
               (case get Plain_page of
                  Sf_raises \<Rightarrow> (None, [Sorted_page page, Plain_page])
                | Sf_http status2 body2 \<Rightarrow>
                    if status2 \<noteq> 200 then (None, [Sorted_page page, Plain_page])
                    else (body2, [Sorted_page page, Plain_page]))
             else (None, [Sorted_page page]))
          else (body, [Sorted_page page]))"

text \<open>\<open>a or b\<close> on optional strings, and \<open>needle in haystack\<close>.\<close>

definition py_or :: "string option \<Rightarrow> string option \<Rightarrow> string option" where
  "py_or a b = (case a of Some x \<Rightarrow> if x \<noteq> [] then Some x else b | None \<Rightarrow> b)"

fun contains :: "string \<Rightarrow> string \<Rightarrow> bool" where
  "contains needle [] = (needle = [])"
| "contains needle (c # cs) = (take (length needle) (c # cs) = needle \<or> contains needle cs)"

text \<open>\<open>str(today.year)\<close>, for the years 1 to 9999 of \<open>datetime\<close>.\<close>

definition str_year :: "nat \<Rightarrow> string" where
  "str_year y =
     dropWhile (\<lambda>c. c = CHR ''0'') (pad2 (y div 100) @ pad2 (y mod 100))"

text \<open>The test of the record loop: a record without a (truthy) date is kept, one with a
  date is kept where the date contains the current year.\<close>

definition is_current :: "nat \<Rightarrow> string option \<Rightarrow> bool" where
  "is_current today_year date_val =
     (case date_val of
        None \<Rightarrow> True
      | Some d \<Rightarrow> if d = [] then True else contains (str_year today_year) d)"

text \<open>What a page adds to \<open>all_records\<close>: for the two bounded date ranges the records
  of the current year, else all of them.\<close>

definition kept_records :: "('r \<Rightarrow> string option) \<Rightarrow> string \<Rightarrow> nat \<Rightarrow> 'r list \<Rightarrow> 'r list" where
  "kept_records date_val date_range today_year records =
     (if date_range = ''Year to Date'' \<or> date_range = ''Month to Date''
      then filter (\<lambda>r. is_current today_year (date_val r)) records
      else records)"

text \<open>\<open>old_data_count > len(records) / 2 and page > 1\<close>, tested only for the two bounded
  date ranges.\<close>

definition mostly_old :: "('r \<Rightarrow> string option) \<Rightarrow> string \<Rightarrow> nat \<Rightarrow> 'r list \<Rightarrow> bool" where
  "mostly_old date_val date_range today_year records =
     ((date_range = ''Year to Date'' \<or> date_range = ''Month to Date'') \<and>
      length records <
        2 * length (filter (\<lambda>r. \<not> is_current today_year (date_val r)) records))"

text \<open>The loop \<open>while True\<close> of \<open>extract_with_forced_sort\<close>, with \<open>all_records\<close> and the
  list of the requests sent. The last test of the loop stops it after page 501.\<close>

function extract_pages ::
  "(sf_request \<Rightarrow> 'r sf_response) \<Rightarrow> ('r \<Rightarrow> string option) \<Rightarrow> string \<Rightarrow> nat \<Rightarrow> nat \<Rightarrow> 'r list
     \<Rightarrow> sf_request list \<Rightarrow> 'r list \<times> sf_request list"
where
  "extract_pages get date_val date_range today_year page all_records requested =
     (case request_page get page of
        (None, sent) \<Rightarrow> (all_records, requested @ sent)
      | (Some data, sent) \<Rightarrow>
          if items data = [] then (all_records, requested @ sent)
          else if mostly_old date_val date_range today_year (items data) \<and> page > 1
          then (all_records @ kept_records date_val date_range today_year (items data),
                requested @ sent)
          else if (case currentPage data of None \<Rightarrow> page | Some c \<Rightarrow> c) \<ge>
                  (case pageCount data of None \<Rightarrow> 999 | Some c \<Rightarrow> c)
          then (all_records @ kept_records date_val date_range today_year (items data),
                requested @ sent)
          else if length (all_records @ kept_records date_val date_range today_year (items data))
                  \<ge> 50000
          then (all_records @ kept_records date_val date_range today_year (items data),
                requested @ sent)
          else if page > 500
          then (all_records @ kept_records date_val date_range today_year (items data),
                requested @ sent)
          else extract_pages get date_val date_range today_year (page + 1)
                 (all_records @ kept_records date_val date_range today_year (items data))
                 (requested @ sent))"
  by pat_completeness auto
termination
  by (relation "measure (\<lambda>(get, date_val, date_range, today_year, page, all_records, requested).
                  501 - page)") auto

text \<open>\<open>extract_with_forced_sort\<close>: no request where authentication fails.\<close>

definition extract_with_forced_sort ::
  "bool \<Rightarrow> (sf_request \<Rightarrow> 'r sf_response) \<Rightarrow> ('r \<Rightarrow> string option) \<Rightarrow> string \<Rightarrow> nat
     \<Rightarrow> 'r list \<times> sf_request list"
where
  "extract_with_forced_sort authenticated get date_val date_range today_year =
     (if \<not> authenticated then ([], [])
      else extract_pages get date_val date_range today_year 1 [] [])"

text \<open>A response with a status other than 200.\<close>

definition non_200 :: "'r sf_response \<Rightarrow> bool" where
  "non_200 response = (case response of Sf_http status body \<Rightarrow> status \<noteq> 200 | Sf_raises \<Rightarrow> False)"

section \<open>Kimai pipeline: identifier resolution, reports and the run\<close>

subsection \<open>\<open>process_timesheet_mappings\<close>\<close>

text \<open>
  A row of \<open>timesheets_df\<close> after the mappings: every name is \<open>None\<close> (\<open>NaN\<close>) where
  \<open>Series.map\<close> finds no entry for the id, or where the entry is null. \<open>t_date\<close> is the
  local day of \<open>begin\<close> (the frame holds it as the string \<open>%m/%d/%Y\<close>, which
  \<open>create_customer_reports\<close> parses back), \<open>t_duration\<close> the hours. The column
  \<open>Week\<close> is written to no report and is left out.
\<close>

record timesheet_row =
  t_activity :: "string option"
  t_project :: "string option"
  t_user :: "string option"
  t_customer :: "string option"
  t_date :: "int option"
  t_duration :: "rat option"

text \<open>\<open>Series.map(dict)\<close> at one value.\<close>

definition map_lookup :: "('k \<rightharpoonup> 'v option) \<Rightarrow> 'k \<Rightarrow> 'v option" where
  "map_lookup m k = (case m k of None \<Rightarrow> None | Some v \<Rightarrow> v)"

definition resolve_row ::
  "zone \<Rightarrow> rounding \<Rightarrow> (int \<rightharpoonup> string option) \<Rightarrow> (string \<rightharpoonup> string option)
     \<Rightarrow> (string \<rightharpoonup> string option) \<Rightarrow> (string \<rightharpoonup> string option) \<Rightarrow> raw_timesheet
     \<Rightarrow> timesheet_row"
where
  "resolve_row tz rnd id_to_name id_to_project_name id_to_parent_title id_to_alias r =
     \<lparr>t_activity = map_lookup id_to_name (activity r),
      t_project = map_lookup id_to_project_name (project r),
      t_user = map_lookup id_to_alias (user r),
      t_customer = map_lookup id_to_parent_title (project r),
      t_date = map_option (date_only tz) (begin_dt r),
      t_duration = map_option (\<lambda>d. rnd 2 (of_int d / 3600)) (duration r)\<rparr>"

text \<open>\<open>None\<close> is \<open>return None, pd.DataFrame()\<close>: one of the four frames is missing from
  \<open>dataframes\<close>.\<close>

definition process_timesheet_mappings ::
  "zone \<Rightarrow> rounding \<Rightarrow> dataframes \<Rightarrow> (timesheet_row list \<times> break_record list) option"
where
  "process_timesheet_mappings tz rnd frames =
     (case (Timesheets frames, Activities frames, Projects frames, Users frames) of
        (Some timesheets_raw_df, Some activities_df, Some projects_df, Some users_df) \<Rightarrow>
          (let breaks_df = calculate_breaks_from_raw_data tz rnd timesheets_raw_df users_df;
               id_to_name = dict_zip (map act_id activities_df) (map act_name activities_df);
               id_to_project_name = dict_zip (map proj_id projects_df) (map proj_name projects_df);
               id_to_parent_title = dict_zip (map proj_id projects_df) (map parentTitle projects_df);
               id_to_alias = dict_zip (map uid users_df) (map alias_name users_df)
           in Some (map (resolve_row tz rnd id_to_name id_to_project_name id_to_parent_title
                           id_to_alias) timesheets_raw_df,
                    breaks_df))
      | _ \<Rightarrow> None)"

subsection \<open>\<open>create_customer_reports\<close>\<close>

definition EXPECTED_CUSTOMERS :: "string list" where
  "EXPECTED_CUSTOMERS =
     [''Bluewater Operations'', ''Construction'', ''DUKE'', ''Fire Dragon'', ''Flock'',
      ''General Admin'', ''Lumen'', ''Redspeed'', ''SCC- Miami Dade'', ''TECO'', ''TDS'']"

datatype cell = Text string | Number rat

record sheet =
  sheet_title :: string
  sheet_rows :: "cell list list"

text \<open>\<open>df.groupby(keys).agg({"duration": "sum"}).reset_index()\<close>: the keys in ascending
  order, each with the sum of its rows. With the defaults of pandas a row with a missing
  (\<open>NaN\<close>) key belongs to no group: \<open>key\<close> gives \<open>None\<close> for it.\<close>

definition groupby_sum ::
  "('r \<Rightarrow> 'k::linorder option) \<Rightarrow> ('r \<Rightarrow> rat) \<Rightarrow> 'r list \<Rightarrow> ('k \<times> rat) list"
where
  "groupby_sum key val rs =
     map (\<lambda>(k, g). (k, sum_list (map snd g)))
       (groupby fst (List.map_filter (\<lambda>r. map_option (\<lambda>k. (k, val r)) (key r)) rs))"

text \<open>\<open>pd.to_numeric(..., errors="coerce").fillna(0)\<close>.\<close>

definition hours :: "timesheet_row \<Rightarrow> rat" where
  "hours r = (case t_duration r of None \<Rightarrow> 0 | Some h \<Rightarrow> h)"

definition key_customer_user :: "timesheet_row \<Rightarrow> (string \<times> string) option" where
  "key_customer_user r =
     (case (t_customer r, t_user r) of (Some c, Some u) \<Rightarrow> Some (c, u) | _ \<Rightarrow> None)"

definition key_detailed ::
  "timesheet_row \<Rightarrow> (string \<times> string \<times> string \<times> string \<times> int) option"
where
  "key_detailed r =
     (case (t_customer r, t_user r, t_project r, t_activity r, t_date r) of
        (Some c, Some u, Some p, Some a, Some d) \<Rightarrow> Some (c, u, p, a, d)
      | _ \<Rightarrow> None)"

definition key_user_project_activity ::
  "timesheet_row \<Rightarrow> (string \<times> string \<times> string) option"
where
  "key_user_project_activity r =
     (case (t_user r, t_project r, t_activity r) of
        (Some u, Some p, Some a) \<Rightarrow> Some (u, p, a)
      | _ \<Rightarrow> None)"

text \<open>\<open>strftime('%m/%d/%Y')\<close> and \<open>strftime('%Y%m%d')\<close> of the wall clock reading.\<close>

definition strftime_mdY :: "datetime \<Rightarrow> string" where
  "strftime_mdY now =
     pad2 (month now) @ ''/'' @ pad2 (day now) @ ''/'' @
     pad2 (year now div 100) @ pad2 (year now mod 100)"

definition strftime_Ymd :: "datetime \<Rightarrow> string" where
  "strftime_Ymd now =
     pad2 (year now div 100) @ pad2 (year now mod 100) @ pad2 (month now) @ pad2 (day now)"

definition customer_header :: "cell list" where
  "customer_header =
     [Text ''EmployeeName'', Text ''EmployeeHours'', Text ''ProjectName'',
      Text ''ActivityName'', Text ''ActivityHours'', Text ''CustomerTotal'']"

text \<open>The body of the loop \<open>for customer in all_expected_customers\<close>: the sheet of one
  customer of the roster.\<close>

definition customer_sheet ::
  "rounding \<Rightarrow> timesheet_row list \<Rightarrow> ((string \<times> string) \<times> rat) list \<Rightarrow> string \<Rightarrow> sheet"
where
  "customer_sheet rnd df_ytd grouped_total_ytd customer =
     (if customer \<in> (fst \<circ> fst) ` set grouped_total_ytd then
        (let customer_total = filter (\<lambda>(k, d). fst k = customer) grouped_total_ytd;
             customer_detailed =
               groupby_sum key_user_project_activity hours
                 (filter (\<lambda>r. t_customer r = Some customer) df_ytd);
             customer_total_hours = rnd 2 (sum_list (map snd customer_total))
         in \<lparr>sheet_title = take 31 customer,
             sheet_rows =
               customer_header #
               concat
                 (map (\<lambda>(k, d).
                         (let employee = snd k;
                              total_hours = rnd 2 d;
                              emp_activities = filter (\<lambda>(a, h). fst a = employee) customer_detailed
                          in if emp_activities \<noteq> [] then
                               map (\<lambda>(a, h).
                                      [Text employee, Number total_hours, Text (fst (snd a)),
                                       Text (snd (snd a)), Number (rnd 2 h),
                                       Number customer_total_hours])
                                 emp_activities
                             else [[Text employee, Number total_hours, Text [], Text [],
                                    Number 0, Number customer_total_hours]]))
                    customer_total)\<rparr>)
      else
        \<lparr>sheet_title = take 31 customer,
         sheet_rows =
           [customer_header, [Text [], Number 0, Text [], Text [], Number 0, Number 0]]\<rparr>)"

text \<open>The sheet \<open>YTD Break Analysis\<close>: one row per break, sorted by user, formatted date
  and start of the break. \<open>strftime_date\<close> is \<open>date.strftime('%m/%d/%Y')\<close> of a day
  number, a parameter. A missing user sorts last and is written \<open>None\<close>.\<close>

definition break_rows ::
  "rounding \<Rightarrow> (int \<Rightarrow> string) \<Rightarrow> break_record list \<Rightarrow> cell list list"
where
  "break_rows rnd strftime_date breaks_df =
     map (\<lambda>(r, b).
            [Text (case br_user r of None \<Rightarrow> ''None'' | Some u \<Rightarrow> u),
             Text (strftime_date (br_date r)),
             Text (break_start b), Text (break_end b),
             Number (rnd 1 (break_duration_minutes b)),
             Number (rnd 2 (break_duration_hours b)),
             Text (first_work_start r), Text (last_work_end r)])
       (sort_key (\<lambda>(r, b).
                    ((case br_user r of None \<Rightarrow> (1 :: nat, []) | Some u \<Rightarrow> (0, u)),
                     strftime_date (br_date r), break_start b))
          (concat (map (\<lambda>r. map (\<lambda>b. (r, b)) (break_details r)) breaks_df)))"

text \<open>\<open>sort_values("duration", ascending=False)\<close>; rows with equal sums keep their order
  here (pandas leaves it open).\<close>

definition sort_descending :: "('k \<times> rat) list \<Rightarrow> ('k \<times> rat) list" where
  "sort_descending xs = sort_key (\<lambda>(k, d). - d) xs"

text \<open>The workbook of \<open>create_customer_reports\<close>, its sheets in their final order.
  \<open>roster_order\<close> is the order in which Python iterates the set
  \<open>set(EXPECTED_CUSTOMERS) - {"General Admin"}\<close>: it depends on the hash seed of the
  process, so it is a parameter here.\<close>

definition customer_reports_workbook ::
  "rounding \<Rightarrow> (int \<Rightarrow> string) \<Rightarrow> datetime \<Rightarrow> string list \<Rightarrow> timesheet_row list
     \<Rightarrow> break_record list \<Rightarrow> sheet list"
where
  "customer_reports_workbook rnd strftime_date now roster_order timesheets_df breaks_df =
     (let df_ytd = filter (\<lambda>r. t_customer r \<noteq> Some ''General Admin'') timesheets_df;
          grouped_total_ytd = groupby_sum key_customer_user hours df_ytd;
          grouped_detailed_ytd = groupby_sum key_detailed hours df_ytd;
          customer_hours = sort_descending (groupby_sum t_customer hours df_ytd);
          total_all_customers = sum_list (map snd customer_hours)
      in [\<lparr>sheet_title = ''Employee Summary'',
            sheet_rows =
              [Text ''Customer'', Text ''Employee'', Text ''TotalHours'', Text ''Date''] #
              map (\<lambda>(k, d). [Text (fst k), Text (snd k), Number (rnd 2 d),
                              Text (strftime_mdY now)])
                grouped_total_ytd\<rparr>,
          \<lparr>sheet_title = ''Activity Details'',
            sheet_rows =
              [Text ''Customer'', Text ''Employee'', Text ''Project'', Text ''Activity'',
               Text ''Hours'', Text ''Date''] #
              map (\<lambda>(k, d).
                     (case k of (c, u, p, a, dt) \<Rightarrow>
                        [Text c, Text u, Text p, Text a, Number (rnd 2 d),
                         Text (strftime_date dt)]))
                grouped_detailed_ytd\<rparr>,
          \<lparr>sheet_title = ''Customer Hours Summary'',
            sheet_rows =
              [Text ''Customer'', Text ''TotalHours'', Text ''Percentage''] #
              map (\<lambda>(c, d).
                     [Text c, Number (rnd 2 d),
                      Number (if total_all_customers > 0
                              then rnd 1 (d / total_all_customers * 100) else 0)])
                customer_hours\<rparr>] @
         (if breaks_df \<noteq> [] then
            [\<lparr>sheet_title = ''YTD Break Analysis'',
              sheet_rows =
                [Text ''Employee'', Text ''Date'', Text ''BreakStart'', Text ''BreakEnd'',
                 Text ''DurationMinutes'', Text ''DurationHours'', Text ''WorkDayStart'',
                 Text ''WorkDayEnd''] #
                break_rows rnd strftime_date breaks_df\<rparr>]
          else []) @
         map (customer_sheet rnd df_ytd grouped_total_ytd) roster_order)"

text \<open>The workbook of \<open>create_summary_file\<close>.\<close>

definition summary_workbook :: "rounding \<Rightarrow> timesheet_row list \<Rightarrow> sheet list" where
  "summary_workbook rnd timesheets_df =
     (let df_hours_per_employee = groupby_sum t_user hours timesheets_df;
          total_hours = sum_list (map snd df_hours_per_employee);
          total_employees = length df_hours_per_employee
      in [\<lparr>sheet_title = ''Weekly Summary'',
            sheet_rows =
              map (\<lambda>(u, d). [Text u, Number (rnd 2 d)]) df_hours_per_employee @
              [[],
               [Text ''METRIC'', Text ''VALUE''],
               [Text ''Total Hours'', Number (rnd 2 total_hours)],
               [Text ''Total Employees'', Number (of_nat total_employees)],
               [Text ''Average Hours'',
                Number (if total_employees > 0
                        then rnd 2 (total_hours / of_nat total_employees) else 0)]]\<rparr>])"

text \<open>\<open>create_customer_reports\<close>: the files it writes, by name.\<close>

definition create_customer_reports ::
  "rounding \<Rightarrow> (int \<Rightarrow> string) \<Rightarrow> datetime \<Rightarrow> string list \<Rightarrow> timesheet_row list
     \<Rightarrow> break_record list \<Rightarrow> (string \<times> sheet list) list"
where
  "create_customer_reports rnd strftime_date now roster_order timesheets_df breaks_df =
     [(''Kimai_Customer_Reports_YTD_'' @ strftime_Ymd now @ ''.xlsx'',
       customer_reports_workbook rnd strftime_date now roster_order timesheets_df breaks_df),
      (''Kimai_Summary_YTD_'' @ strftime_Ymd now @ ''.xlsx'',
       summary_workbook rnd timesheets_df)]"

subsection \<open>The run of the Kimai script\<close>

text \<open>What a run leaves behind: the exit code of the process and the files written. The
  parameters of a run are the environment (\<open>KIMAI_API_TOKEN\<close>), the API, the reading of
  the wall clock (one reading for the whole run), the iteration order of the roster set,
  and the library functions (time zone, rounding, date format). \<open>None\<close> is a run that
  does not end.\<close>

record run =
  exit_code :: nat
  files :: "(string \<times> sheet list) list"

definition kimai_main ::
  "zone \<Rightarrow> rounding \<Rightarrow> (int \<Rightarrow> string) \<Rightarrow> string option \<Rightarrow> kimai_api \<Rightarrow> datetime \<Rightarrow> string list
     \<Rightarrow> run option"
where
  "kimai_main tz rnd strftime_date api_token api now roster_order =
     (if api_token = None \<or> api_token = Some [] then Some \<lparr>exit_code = 1, files = []\<rparr>
      else
        (case fetch_api_data api of
           None \<Rightarrow> None
         | Some frames \<Rightarrow>
             if Timesheets frames = None \<and> Activities frames = None \<and>
                Projects frames = None \<and> Users frames = None
             then Some \<lparr>exit_code = 1, files = []\<rparr>
             else
               (case process_timesheet_mappings tz rnd frames of
                  None \<Rightarrow> Some \<lparr>exit_code = 1, files = []\<rparr>
                | Some (timesheets_df, breaks_df) \<Rightarrow>
                    Some \<lparr>exit_code = 0,
                          files = create_customer_reports rnd strftime_date now roster_order
                                    timesheets_df breaks_df\<rparr>)))"

section \<open>Example runs\<close>

text \<open>An iteration order of the roster set, and a reading of the wall clock.\<close>

definition ex_roster :: "string list" where
  "ex_roster =
     [''TDS'', ''Bluewater Operations'', ''Construction'', ''DUKE'', ''Fire Dragon'',
      ''Flock'', ''Lumen'', ''Redspeed'', ''SCC- Miami Dade'', ''TECO'']"

definition ex_now :: datetime where
  "ex_now = \<lparr>year = 2025, month = 3, day = 9, hh = 6, mm = 0, ss = 0, microsecond = 0\<rparr>"

text \<open>Frames in which the user id of the one timesheet is not in the Users frame.\<close>

definition ex_unresolved :: dataframes where
  "ex_unresolved =
     \<lparr>Timesheets = Some [\<lparr>user = ''99'', begin_dt = Some 1741528800, end_dt = Some 1741532400,
                            project = ''1'', activity = 1, duration = Some 3600\<rparr>],
      Activities = Some [\<lparr>act_id = 1, act_name = Some ''Install''\<rparr>],
      Projects = Some [\<lparr>proj_id = ''1'', proj_name = Some ''Tower'', parentTitle = Some ''DUKE''\<rparr>],
      Users = Some [\<lparr>uid = ''7'', alias_name = Some ''ann''\<rparr>]\<rparr>"

text \<open>Frames with two timesheets of one employee: an hour for a project of the customer
  \<open>DUKE\<close> and, two hours later, half an hour for a project of \<open>General Admin\<close>.\<close>

definition ex_two_customers :: dataframes where
  "ex_two_customers =
     \<lparr>Timesheets = Some [\<lparr>user = ''7'', begin_dt = Some 1741528800, end_dt = Some 1741532400,
                            project = ''1'', activity = 1, duration = Some 3600\<rparr>,
                          \<lparr>user = ''7'', begin_dt = Some 1741539600, end_dt = Some 1741541400,
                            project = ''2'', activity = 1, duration = Some 1800\<rparr>],
      Activities = Some [\<lparr>act_id = 1, act_name = Some ''Install''\<rparr>],
      Projects = Some [\<lparr>proj_id = ''1'', proj_name = Some ''Tower'', parentTitle = Some ''DUKE''\<rparr>,
                       \<lparr>proj_id = ''2'', proj_name = Some ''Office'',
                         parentTitle = Some ''General Admin''\<rparr>],
      Users = Some [\<lparr>uid = ''7'', alias_name = Some ''ann''\<rparr>]\<rparr>"

section \<open>Break detection: the scan and the policy\<close>

lemma adjacent_pairs_Cons2:
  "adjacent_pairs (x # y # xs) = (x, y) # adjacent_pairs (y # xs)"
  by (simp add: adjacent_pairs_def)

lemma adjacent_pairs_short:
  "adjacent_pairs [] = []" "adjacent_pairs [x] = []"
  by (simp_all add: adjacent_pairs_def)

lemma find_gaps_spec:
  "find_gaps tz rnd grp (bs, t) =
     (bs @ map (spec_detail tz rnd) (spec_breaks tz grp),
      t + sum_list (map spec_gap (spec_breaks tz grp)))"
proof (induction tz rnd grp "(bs, t)" arbitrary: bs t rule: find_gaps.induct)
  case (1 tz rnd cur nxt rest daily_breaks total_break_time)
  show ?case
    by (simp add: "1.hyps" Let_def spec_breaks_def adjacent_pairs_Cons2 spec_is_break_def
        spec_gap_def spec_detail_def)
next
  case (2 tz rnd cur acc)
  then show ?case by (simp add: spec_breaks_def adjacent_pairs_short)
next
  case (3 tz rnd acc)
  then show ?case by (simp add: spec_breaks_def adjacent_pairs_short)
qed

lemma group_record_char:
  "group_record tz rnd m k rows =
     (let grp = sort_key begin_local rows; ps = spec_breaks tz grp in
      if ps = [] then None
      else Some
        \<lparr>br_user = (case m (fst k) of None \<Rightarrow> Some (''User_'' @ fst k) | Some a \<Rightarrow> a),
         br_user_id = fst k, br_date = snd k,
         total_breaks = length ps,
         total_break_hours = rnd 2 (of_int (sum_list (map spec_gap ps)) / 3600),
         total_break_minutes = rnd 1 (of_int (sum_list (map spec_gap ps)) / 60),
         break_details = map (spec_detail tz rnd) ps,
         first_work_start = strftime_HMS tz (begin_local (hd grp)),
         last_work_end = strftime_HMS tz (end_local (last grp)),
         total_work_entries = length grp\<rparr>)"
proof -
  have short: "spec_breaks tz g = []" if "length g < 2" for g :: "entry list"
  proof (cases g)
    case Nil then show ?thesis by (simp add: spec_breaks_def adjacent_pairs_short)
  next
    case (Cons a as)
    with that have "as = []" by simp
    with Cons show ?thesis by (simp add: spec_breaks_def adjacent_pairs_short)
  qed
  show ?thesis
    by (auto simp: group_record_def Let_def find_gaps_spec short)
qed




lemma in_map_filter:
  "y \<in> set (List.map_filter f xs) \<longleftrightarrow> (\<exists>x \<in> set xs. f x = Some y)"
  by (force simp: List.map_filter_def)

text \<open>
  Claim C10. Every break record the detector emits is consistent: \<open>total_breaks\<close> is the
  length of \<open>break_details\<close> and is at least 1, and \<open>total_break_hours\<close> and
  \<open>total_break_minutes\<close> are the sum of the accepted gaps of the record's group, divided
  by 3600 and by 60, under the rounding to 2 and to 1 decimal places.
\<close>

theorem break_record_consistent:
  assumes "r \<in> set (calculate_breaks_from_raw_data tz rnd raw_timesheets users)"
  shows "total_breaks r = length (break_details r) \<and> 1 \<le> total_breaks r \<and>
    (\<exists>k rows.
       (k, rows) \<in> set (groupby (\<lambda>e. (user_id e, date_only tz (begin_local e)))
                        (dropna raw_timesheets)) \<and>
       break_details r =
         map (spec_detail tz rnd) (spec_breaks tz (sort_key begin_local rows)) \<and>
       total_break_hours r =
         rnd 2 (of_int (sum_list (map spec_gap (spec_breaks tz (sort_key begin_local rows))))
                / 3600) \<and>
       total_break_minutes r =
         rnd 1 (of_int (sum_list (map spec_gap (spec_breaks tz (sort_key begin_local rows))))
                / 60))"
proof -
  from assms obtain k rows where
    kr: "(k, rows) \<in> set (groupby (\<lambda>e. (user_id e, date_only tz (begin_local e)))
                        (dropna raw_timesheets))"
    and g: "group_record tz rnd (dict_zip (map uid users) (map alias_name users)) k rows = Some r"
    by (auto simp: calculate_breaks_from_raw_data_def in_map_filter)
  let ?ps = "spec_breaks tz (sort_key begin_local rows)"
  from g have ne: "?ps \<noteq> []" and
    r: "total_breaks r = length ?ps" "break_details r = map (spec_detail tz rnd) ?ps"
       "total_break_hours r = rnd 2 (of_int (sum_list (map spec_gap ?ps)) / 3600)"
       "total_break_minutes r = rnd 1 (of_int (sum_list (map spec_gap ?ps)) / 60)"
    by (auto simp: group_record_char Let_def split: if_splits)
  from ne have "1 \<le> length ?ps" by (cases ?ps) simp_all
  then have "1 \<le> total_breaks r" and "total_breaks r = length (break_details r)"
    using r by simp_all
  moreover have "\<exists>k rows.
       (k, rows) \<in> set (groupby (\<lambda>e. (user_id e, date_only tz (begin_local e)))
                        (dropna raw_timesheets)) \<and>
       break_details r =
         map (spec_detail tz rnd) (spec_breaks tz (sort_key begin_local rows)) \<and>
       total_break_hours r =
         rnd 2 (of_int (sum_list (map spec_gap (spec_breaks tz (sort_key begin_local rows))))
                / 3600) \<and>
       total_break_minutes r =
         rnd 1 (of_int (sum_list (map spec_gap (spec_breaks tz (sort_key begin_local rows))))
                / 60)"
    using kr r by blast
  ultimately show ?thesis by simp
qed

theorem break_record_consistent_witness:
  "calculate_breaks_from_raw_data (\<lambda>t. - 18000) (\<lambda>n x. x)
     [\<lparr>user = ''7'', begin_dt = Some 56700, end_dt = Some 57000,
        project = ''1'', activity = 1, duration = Some 300\<rparr>,
      \<lparr>user = ''7'', begin_dt = Some 54000, end_dt = Some 55800,
        project = ''1'', activity = 1, duration = Some 300\<rparr>,
      \<lparr>user = ''7'', begin_dt = Some 56099, end_dt = Some 56400,
        project = ''1'', activity = 1, duration = Some 300\<rparr>,
      \<lparr>user = ''8'', begin_dt = Some 56099, end_dt = None,
        project = ''1'', activity = 1, duration = Some 300\<rparr>,
      \<lparr>user = ''3'', begin_dt = Some 56099, end_dt = Some 56400,
        project = ''1'', activity = 1, duration = Some 300\<rparr>]
     [\<lparr>uid = ''7'', alias_name = Some ''Ann''\<rparr>] =
   [\<lparr>br_user = Some ''Ann'', br_user_id = ''7'', br_date = 0,
     total_breaks = 1, total_break_hours = 1 / 12, total_break_minutes = 5,
     break_details =
       [\<lparr>break_start = ''10:40:00'', break_end = ''10:45:00'',
           break_duration_hours = 1 / 12, break_duration_minutes = 5\<rparr>],
     first_work_start = ''10:00:00'', last_work_end = ''10:50:00'',
     total_work_entries = 3\<rparr>] \<and>
   total_breaks \<lparr>br_user = Some ''Ann'', br_user_id = ''7'', br_date = 0,
     total_breaks = 1, total_break_hours = 1 / 12, total_break_minutes = 5,
     break_details =
       [\<lparr>break_start = ''10:40:00'', break_end = ''10:45:00'',
           break_duration_hours = 1 / 12, break_duration_minutes = 5\<rparr>],
     first_work_start = ''10:00:00'', last_work_end = ''10:50:00'',
     total_work_entries = 3\<rparr> = 1"
proof -
  let ?raw = "[\<lparr>user = ''7'', begin_dt = Some 56700, end_dt = Some 57000,
        project = ''1'', activity = 1, duration = Some 300\<rparr>,
      \<lparr>user = ''7'', begin_dt = Some 54000, end_dt = Some 55800,
        project = ''1'', activity = 1, duration = Some 300\<rparr>,
      \<lparr>user = ''7'', begin_dt = Some 56099, end_dt = Some 56400,
        project = ''1'', activity = 1, duration = Some 300\<rparr>,
      \<lparr>user = ''8'', begin_dt = Some 56099, end_dt = None,
        project = ''1'', activity = 1, duration = Some 300\<rparr>,
      \<lparr>user = ''3'', begin_dt = Some (56099::int), end_dt = Some (56400::int),
        project = ''1'', activity = 1, duration = Some 300\<rparr>]"
  let ?r = "\<lparr>br_user = Some ''Ann'', br_user_id = ''7'', br_date = 0,
     total_breaks = 1, total_break_hours = 1 / 12, total_break_minutes = 5,
     break_details =
       [\<lparr>break_start = ''10:40:00'', break_end = ''10:45:00'',
           break_duration_hours = 1 / 12, break_duration_minutes = 5\<rparr>],
     first_work_start = ''10:00:00'', last_work_end = ''10:50:00'',
     total_work_entries = 3\<rparr>"
  have ev: "calculate_breaks_from_raw_data (\<lambda>t. - 18000) (\<lambda>n x. x) ?raw
     [\<lparr>uid = ''7'', alias_name = Some ''Ann''\<rparr>] = [?r]"
    by (simp add: calculate_breaks_from_raw_data_def dropna_def List.map_filter_def
        groupby_def date_only_def wall_clock_def dict_zip_def group_record_def hour_def
        strftime_HMS_def pad2_def Let_def less_eq_prod_def less_prod_def list_le_def list_less_def)
  then have "?r \<in> set (calculate_breaks_from_raw_data (\<lambda>t. - 18000) (\<lambda>n x. x) ?raw
     [\<lparr>uid = ''7'', alias_name = Some ''Ann''\<rparr>])" by simp
  from break_record_consistent [OF this] ev show ?thesis by simp
qed

section \<open>Invoice matching refines the specified matcher\<close>











section \<open>Due dates\<close>

lemma calculate_due_date_spec:
  "calculate_due_date fiso d = spec_due_date fiso d"
  by (auto simp: calculate_due_date_def spec_due_date_def spec_parse_def spec_has_time_def
      add_days_def Let_def split: option.splits)

lemma next_day_time [simp]:
  "hh (next_day d) = hh d" "mm (next_day d) = mm d" "ss (next_day d) = ss d"
  "microsecond (next_day d) = microsecond d"
  by (simp_all add: next_day_def)

lemma next_days_time:
  "hh ((next_day ^^ n) d) = hh d \<and> mm ((next_day ^^ n) d) = mm d \<and>
   ss ((next_day ^^ n) d) = ss d \<and> microsecond ((next_day ^^ n) d) = microsecond d"
  by (induction n) simp_all

lemma job_record_due:
  "Invoice_ECD_Due_Date (job_record fiso bc j) =
     calculate_due_date fiso (Invoice_Date (job_record fiso bc j))"
  by (simp add: job_record_def Let_def split: prod.splits)

lemma job_record_unmatched:
  "\<not> Has_Related_Invoices (job_record fiso bc j) \<Longrightarrow> Invoice_Date (job_record fiso bc j) = None"
  by (simp add: job_record_def Let_def split: prod.splits)

lemma funpow_15: "(f ^^ 15) x = f (f (f (f (f (f (f (f (f (f (f (f (f (f (f x))))))))))))))"
  by (simp add: eval_nat_numeral)

lemma job_record_fields:
  "Invoice_Date (job_record fiso bc j) =
     (case fst (find_related_invoice j
                  (case bc (case j_customer_name j of None \<Rightarrow> ''Unknown'' | Some n \<Rightarrow> n) of
                     None \<Rightarrow> [] | Some xs \<Rightarrow> xs)) of
        None \<Rightarrow> None | Some i \<Rightarrow> inv_date i)"
  "Has_Related_Invoices (job_record fiso bc j) =
     (fst (find_related_invoice j
             (case bc (case j_customer_name j of None \<Rightarrow> ''Unknown'' | Some n \<Rightarrow> n) of
                None \<Rightarrow> [] | Some xs \<Rightarrow> xs)) \<noteq> None)"
  by (simp_all add: job_record_def Let_def split: prod.splits)

lemma ex_overflow_parse:
  "strptime_Ymd (take 10 (strip ''9999-12-20'')) =
     Some \<lparr>year = 9999, month = 12, day = 20, hh = 0, mm = 0, ss = 0, microsecond = 0\<rparr>"
  by (simp add: strip_def is_space_def strptime_Ymd_def is_digit_def digit_val_def to_nat_def
      days_in_month_def is_leap_def)

lemma ex_overflow_due: "calculate_due_date (\<lambda>s. None) (Some ''9999-12-20'') = None"
proof -
  have "add_days 15 \<lparr>year = 9999, month = 12, day = 20, hh = 0, mm = 0, ss = 0,
                      microsecond = 0\<rparr> = None"
    by (simp add: add_days_def funpow_15 next_day_def days_in_month_def is_leap_def)
  moreover have "strip ''9999-12-20'' = ''9999-12-20''"
    by (simp add: strip_def is_space_def)
  ultimately show ?thesis
    using ex_overflow_parse by (simp add: calculate_due_date_def)
qed

lemma ex_space_due:
  "calculate_due_date (\<lambda>s. None) (Some ''2024-01-15 10:30:00'') =
     Some (Strftime ''%Y-%m-%d''
             \<lparr>year = 2024, month = 1, day = 30, hh = 0, mm = 0, ss = 0, microsecond = 0\<rparr>)"
proof -
  have s: "strip ''2024-01-15 10:30:00'' = ''2024-01-15 10:30:00''"
    by (simp add: strip_def is_space_def)
  have p: "strptime_Ymd ''2024-01-15'' =
     Some \<lparr>year = 2024, month = 1, day = 15, hh = 0, mm = 0, ss = 0, microsecond = 0\<rparr>"
    by (simp add: strptime_Ymd_def is_digit_def digit_val_def to_nat_def
        days_in_month_def is_leap_def)
  have a: "add_days 15 \<lparr>year = 2024, month = 1, day = 15, hh = 0, mm = 0, ss = 0,
                      microsecond = 0\<rparr> =
     Some \<lparr>year = 2024, month = 1, day = 30, hh = 0, mm = 0, ss = 0, microsecond = 0\<rparr>"
    by (simp add: add_days_def funpow_15 next_day_def days_in_month_def is_leap_def)
  show ?thesis using s p a by (simp add: calculate_due_date_def)
qed


text \<open>
  Claim C9, as amended. The field \<open>Invoice_ECD_Due_Date\<close> of every job record is the due
  date of the record's \<open>Invoice_Date\<close>: that date parsed (as a datetime where the stripped
  string contains the letter \<open>T\<close>, else as a plain date from its first ten
  characters), moved on by exactly 15 calendar days with the time of day unchanged, and
  rendered as a datetime in the first case and as a plain date in the second. The field
  is \<open>None\<close> when no invoice matched, when the date is missing, empty or unparseable,
  and when the day 15 days later lies after the year 9999.
\<close>

theorem due_date_fifteen_days_after_invoice:
  "Invoice_ECD_Due_Date (job_record fiso bc j) =
     spec_due_date fiso (Invoice_Date (job_record fiso bc j)) \<and>
   (\<not> Has_Related_Invoices (job_record fiso bc j) \<longrightarrow>
      Invoice_ECD_Due_Date (job_record fiso bc j) = None) \<and>
   hh ((next_day ^^ 15) dt) = hh dt \<and> mm ((next_day ^^ 15) dt) = mm dt \<and>
   ss ((next_day ^^ 15) dt) = ss dt \<and> microsecond ((next_day ^^ 15) dt) = microsecond dt"
proof -
  have a: "Invoice_ECD_Due_Date (job_record fiso bc j) =
     spec_due_date fiso (Invoice_Date (job_record fiso bc j))"
    by (simp add: job_record_due calculate_due_date_spec)
  have "Invoice_ECD_Due_Date (job_record fiso bc j) = None"
    if "\<not> Has_Related_Invoices (job_record fiso bc j)"
    using job_record_unmatched [OF that] a by (simp add: spec_due_date_def)
  with a next_days_time [of 15 dt] show ?thesis by blast
qed


text \<open>
  Claim C9 as stated fails at two inputs. The invoice date \<open>9999-12-20\<close> is matched and
  parses, yet the due date is \<open>None\<close>: the sum overflows \<open>datetime\<close> and the exception
  handler returns \<open>None\<close>. The invoice date \<open>2024-01-15 10:30:00\<close> has a time
  component, yet the due date is rendered as the plain date 2024-01-30: only the letter
  \<open>T\<close> selects the datetime format.
\<close>

theorem due_date_counterexample:
  "Has_Related_Invoices (job_record (\<lambda>s. None)
        (invoices_by_customer
           [\<lparr>inv_customer = Some ''A'', inv_total = Some 100, inv_date = Some ''9999-12-20'',
        inv_created_at = None\<rparr>])
        \<lparr>j_id = Some 1, j_number = None, j_description = None, j_customer_id = None,
          j_customer_name = Some ''A'', j_total = Some 100, j_created_at = None,
          j_start_date = None, j_end_date = None, j_category = None, j_status = None,
          j_payment_status = None, j_date = None\<rparr>) \<and>
   Invoice_Date (job_record (\<lambda>s. None)
        (invoices_by_customer
           [\<lparr>inv_customer = Some ''A'', inv_total = Some 100, inv_date = Some ''9999-12-20'',
        inv_created_at = None\<rparr>])
        \<lparr>j_id = Some 1, j_number = None, j_description = None, j_customer_id = None,
          j_customer_name = Some ''A'', j_total = Some 100, j_created_at = None,
          j_start_date = None, j_end_date = None, j_category = None, j_status = None,
          j_payment_status = None, j_date = None\<rparr>) = Some ''9999-12-20'' \<and>
   strptime_Ymd (take 10 (strip ''9999-12-20'')) =
     Some \<lparr>year = 9999, month = 12, day = 20, hh = 0, mm = 0, ss = 0, microsecond = 0\<rparr> \<and>
   Invoice_ECD_Due_Date (job_record (\<lambda>s. None)
        (invoices_by_customer
           [\<lparr>inv_customer = Some ''A'', inv_total = Some 100, inv_date = Some ''9999-12-20'',
        inv_created_at = None\<rparr>])
        \<lparr>j_id = Some 1, j_number = None, j_description = None, j_customer_id = None,
          j_customer_name = Some ''A'', j_total = Some 100, j_created_at = None,
          j_start_date = None, j_end_date = None, j_category = None, j_status = None,
          j_payment_status = None, j_date = None\<rparr>) = None \<and>
   calculate_due_date (\<lambda>s. None) (Some ''2024-01-15 10:30:00'') =
     Some (Strftime ''%Y-%m-%d''
             \<lparr>year = 2024, month = 1, day = 30, hh = 0, mm = 0, ss = 0, microsecond = 0\<rparr>)"
proof -
  have m: "find_related_invoice \<lparr>j_id = Some 1, j_number = None, j_description = None, j_customer_id = None,
          j_customer_name = Some ''A'', j_total = Some 100, j_created_at = None,
          j_start_date = None, j_end_date = None, j_category = None, j_status = None,
          j_payment_status = None, j_date = None\<rparr> (case invoices_by_customer [\<lparr>inv_customer = Some ''A'', inv_total = Some 100, inv_date = Some ''9999-12-20'',
        inv_created_at = None\<rparr>]
       (case j_customer_name \<lparr>j_id = Some 1, j_number = None, j_description = None, j_customer_id = None,
          j_customer_name = Some ''A'', j_total = Some 100, j_created_at = None,
          j_start_date = None, j_end_date = None, j_category = None, j_status = None,
          j_payment_status = None, j_date = None\<rparr> of None \<Rightarrow> ''Unknown'' | Some n \<Rightarrow> n) of None \<Rightarrow> [] | Some xs \<Rightarrow> xs) =
     (Some (hd [\<lparr>inv_customer = Some ''A'', inv_total = Some 100, inv_date = Some ''9999-12-20'',
        inv_created_at = None\<rparr>]), ''Amount Match'')"
    by (simp add: invoices_by_customer_def add_invoice_def find_related_invoice_def total_or_0_def)
  have d: "Invoice_Date (job_record (\<lambda>s. None)
        (invoices_by_customer
           [\<lparr>inv_customer = Some ''A'', inv_total = Some 100, inv_date = Some ''9999-12-20'',
        inv_created_at = None\<rparr>])
        \<lparr>j_id = Some 1, j_number = None, j_description = None, j_customer_id = None,
          j_customer_name = Some ''A'', j_total = Some 100, j_created_at = None,
          j_start_date = None, j_end_date = None, j_category = None, j_status = None,
          j_payment_status = None, j_date = None\<rparr>) = Some ''9999-12-20''" and h: "Has_Related_Invoices (job_record (\<lambda>s. None)
        (invoices_by_customer
           [\<lparr>inv_customer = Some ''A'', inv_total = Some 100, inv_date = Some ''9999-12-20'',
        inv_created_at = None\<rparr>])
        \<lparr>j_id = Some 1, j_number = None, j_description = None, j_customer_id = None,
          j_customer_name = Some ''A'', j_total = Some 100, j_created_at = None,
          j_start_date = None, j_end_date = None, j_category = None, j_status = None,
          j_payment_status = None, j_date = None\<rparr>)"
    unfolding job_record_fields m by simp_all
  have "Invoice_ECD_Due_Date (job_record (\<lambda>s. None)
        (invoices_by_customer
           [\<lparr>inv_customer = Some ''A'', inv_total = Some 100, inv_date = Some ''9999-12-20'',
        inv_created_at = None\<rparr>])
        \<lparr>j_id = Some 1, j_number = None, j_description = None, j_customer_id = None,
          j_customer_name = Some ''A'', j_total = Some 100, j_created_at = None,
          j_start_date = None, j_end_date = None, j_category = None, j_status = None,
          j_payment_status = None, j_date = None\<rparr>) = None"
    unfolding job_record_due d by (rule ex_overflow_due)
  with d h ex_overflow_parse ex_space_due show ?thesis by blast
qed

theorem due_date_fifteen_days_after_invoice_witness:
  "Invoice_ECD_Due_Date (job_record (\<lambda>s. None)
        (invoices_by_customer
           [\<lparr>inv_customer = Some ''A'', inv_total = Some 100, inv_date = Some ''2024-02-20'',
        inv_created_at = None\<rparr>])
        \<lparr>j_id = Some 2, j_number = None, j_description = None, j_customer_id = None,
          j_customer_name = Some ''A'', j_total = Some 100, j_created_at = None,
          j_start_date = None, j_end_date = None, j_category = None, j_status = None,
          j_payment_status = None, j_date = None\<rparr>) =
     Some (Strftime ''%Y-%m-%d''
             \<lparr>year = 2024, month = 3, day = 6, hh = 0, mm = 0, ss = 0, microsecond = 0\<rparr>) \<and>
   Has_Related_Invoices (job_record (\<lambda>s. None)
        (invoices_by_customer
           [\<lparr>inv_customer = Some ''A'', inv_total = Some 100, inv_date = Some ''2024-02-20'',
        inv_created_at = None\<rparr>])
        \<lparr>j_id = Some 2, j_number = None, j_description = None, j_customer_id = None,
          j_customer_name = Some ''A'', j_total = Some 100, j_created_at = None,
          j_start_date = None, j_end_date = None, j_category = None, j_status = None,
          j_payment_status = None, j_date = None\<rparr>)"
proof -
  have m: "find_related_invoice \<lparr>j_id = Some 2, j_number = None, j_description = None, j_customer_id = None,
          j_customer_name = Some ''A'', j_total = Some 100, j_created_at = None,
          j_start_date = None, j_end_date = None, j_category = None, j_status = None,
          j_payment_status = None, j_date = None\<rparr> (case invoices_by_customer [\<lparr>inv_customer = Some ''A'', inv_total = Some 100, inv_date = Some ''2024-02-20'',
        inv_created_at = None\<rparr>]
       (case j_customer_name \<lparr>j_id = Some 2, j_number = None, j_description = None, j_customer_id = None,
          j_customer_name = Some ''A'', j_total = Some 100, j_created_at = None,
          j_start_date = None, j_end_date = None, j_category = None, j_status = None,
          j_payment_status = None, j_date = None\<rparr> of None \<Rightarrow> ''Unknown'' | Some n \<Rightarrow> n) of None \<Rightarrow> [] | Some xs \<Rightarrow> xs) =
     (Some (hd [\<lparr>inv_customer = Some ''A'', inv_total = Some 100, inv_date = Some ''2024-02-20'',
        inv_created_at = None\<rparr>]), ''Amount Match'')"
    by (simp add: invoices_by_customer_def add_invoice_def find_related_invoice_def total_or_0_def)
  have d: "Invoice_Date (job_record (\<lambda>s. None)
        (invoices_by_customer
           [\<lparr>inv_customer = Some ''A'', inv_total = Some 100, inv_date = Some ''2024-02-20'',
        inv_created_at = None\<rparr>])
        \<lparr>j_id = Some 2, j_number = None, j_description = None, j_customer_id = None,
          j_customer_name = Some ''A'', j_total = Some 100, j_created_at = None,
          j_start_date = None, j_end_date = None, j_category = None, j_status = None,
          j_payment_status = None, j_date = None\<rparr>) = Some ''2024-02-20''" and h: "Has_Related_Invoices (job_record (\<lambda>s. None)
        (invoices_by_customer
           [\<lparr>inv_customer = Some ''A'', inv_total = Some 100, inv_date = Some ''2024-02-20'',
        inv_created_at = None\<rparr>])
        \<lparr>j_id = Some 2, j_number = None, j_description = None, j_customer_id = None,
          j_customer_name = Some ''A'', j_total = Some 100, j_created_at = None,
          j_start_date = None, j_end_date = None, j_category = None, j_status = None,
          j_payment_status = None, j_date = None\<rparr>)"
    unfolding job_record_fields m by simp_all
  have s: "strip ''2024-02-20'' = ''2024-02-20''"
    by (simp add: strip_def is_space_def)
  have p: "strptime_Ymd ''2024-02-20'' =
     Some \<lparr>year = 2024, month = 2, day = 20, hh = 0, mm = 0, ss = 0, microsecond = 0\<rparr>"
    by (simp add: strptime_Ymd_def is_digit_def digit_val_def to_nat_def
        days_in_month_def is_leap_def)
  have a: "(next_day ^^ 15) \<lparr>year = 2024, month = 2, day = 20, hh = 0, mm = 0, ss = 0,
                      microsecond = 0\<rparr> =
     \<lparr>year = 2024, month = 3, day = 6, hh = 0, mm = 0, ss = 0, microsecond = 0\<rparr>"
    by (simp add: funpow_15 next_day_def days_in_month_def is_leap_def)
  have "spec_due_date (\<lambda>s. None) (Some ''2024-02-20'') =
     Some (Strftime ''%Y-%m-%d''
             \<lparr>year = 2024, month = 3, day = 6, hh = 0, mm = 0, ss = 0, microsecond = 0\<rparr>)"
    using s p a by (simp add: spec_due_date_def spec_parse_def spec_has_time_def)
  with due_date_fifteen_days_after_invoice
         [of "\<lambda>s. None" "invoices_by_customer [\<lparr>inv_customer = Some ''A'', inv_total = Some 100, inv_date = Some ''2024-02-20'',
        inv_created_at = None\<rparr>]" "\<lparr>j_id = Some 2, j_number = None, j_description = None, j_customer_id = None,
          j_customer_name = Some ''A'', j_total = Some 100, j_created_at = None,
          j_start_date = None, j_end_date = None, j_category = None, j_status = None,
          j_payment_status = None, j_date = None\<rparr>"]
       d h
  show ?thesis by simp
qed

section \<open>Pagination: termination and the order of requests\<close>

lemma fetch_pages_returns:
  assumes "fetch_pages get page df_list requested = Some y"
  shows "\<exists>k \<ge> page. \<not> goes_on (get k)"
proof (rule fetch_pages.raw_induct
    [where P = "\<lambda>g p d r y. \<exists>k \<ge> p. \<not> goes_on (g k)", OF _ assms], goal_cases)
  case (1 f g p d r y)
  show ?case
  proof (cases "goes_on (g p)")
    case True
    then obtain data where gp: "g p = Kimai_http 200 (Some data)" "data \<noteq> []"
      by (auto simp: goes_on_def split: kimai_response.splits option.splits)
    from 1(2) have "f g (p + 1) (d @ [data]) (r @ [p]) = Some y"
      unfolding gp using gp(2) by simp
    from 1(1) [OF this] obtain k where "p + 1 \<le> k" "\<not> goes_on (g k)" by blast
    then show ?thesis by (intro exI [of _ k]) simp
  next
    case False
    then show ?thesis by blast
  qed
qed

lemma fetch_pages_diverges:
  "(\<forall>k \<ge> page. goes_on (get k)) \<Longrightarrow> fetch_pages get page df_list requested = None"
  using fetch_pages_returns [of get page df_list requested]
  by (cases "fetch_pages get page df_list requested") auto

lemma fetch_pages_stops:
  assumes "\<not> goes_on (get k)" "page \<le> k" "\<forall>p. page \<le> p \<and> p < k \<longrightarrow> goes_on (get p)"
  shows "fetch_pages get page df_list requested =
           Some (df_list @ map (\<lambda>p. page_rows (get p)) [page..<k], requested @ [page..<Suc k])"
  using assms
proof (induction "k - page" arbitrary: page df_list requested)
  case 0
  then have "page = k" by simp
  with 0 show ?case
    by (subst fetch_pages.simps)
       (auto simp: goes_on_def split: kimai_response.splits option.splits)
next
  case (Suc n)
  then have lt: "page < k" by simp
  with Suc.prems have "goes_on (get page)" by simp
  then obtain data where g: "get page = Kimai_http 200 (Some data)" "data \<noteq> []"
    by (auto simp: goes_on_def split: kimai_response.splits option.splits)
  have n: "n = k - (page + 1)" using Suc.hyps(2) by simp
  have IH: "fetch_pages get (page + 1) (df_list @ [data]) (requested @ [page]) =
      Some ((df_list @ [data]) @ map (\<lambda>p. page_rows (get p)) [page + 1..<k],
            (requested @ [page]) @ [page + 1..<Suc k])"
    using Suc.prems lt by (intro Suc.hyps(1) [OF n]) auto
  have r: "[page..<k] = page # [page + 1..<k]" "[page..<Suc k] = page # [page + 1..<Suc k]"
    using lt by (simp_all add: upt_conv_Cons)
  show ?case
    using IH lt by (subst fetch_pages.simps) (simp add: g r page_rows_def del: upt_Suc)
qed

lemma fetch_pages_None_iff:
  "fetch_pages get page df_list requested = None \<longleftrightarrow> (\<forall>k \<ge> page. goes_on (get k))"
proof
  assume n: "fetch_pages get page df_list requested = None"
  show "\<forall>k \<ge> page. goes_on (get k)"
  proof (rule ccontr)
    assume "\<not> (\<forall>k \<ge> page. goes_on (get k))"
    then have ex: "\<exists>k. page \<le> k \<and> \<not> goes_on (get k)" by blast
    define k where "k = (LEAST k. page \<le> k \<and> \<not> goes_on (get k))"
    have k: "page \<le> k \<and> \<not> goes_on (get k)"
      unfolding k_def using ex by (rule LeastI_ex)
    have "goes_on (get p)" if "page \<le> p" "p < k" for p
      using that not_less_Least [of p "\<lambda>k. page \<le> k \<and> \<not> goes_on (get k)"] by (auto simp: k_def)
    with k fetch_pages_stops [of get k page df_list requested] n show False by auto
  qed
qed (rule fetch_pages_diverges)

lemma request_page_sent:
  "snd (request_page get page) = [Sorted_page page] \<or>
   (page = 1 \<and> snd (request_page get page) = [Sorted_page page, Plain_page])"
  by (auto simp: request_page_def split: sf_response.splits)

lemma extract_pages_step:
  "extract_pages get dv dr y page acc reqs =
     (case request_page get page of
        (None, sent) \<Rightarrow> (acc, reqs @ sent)
      | (Some data, sent) \<Rightarrow>
          if items data = [] then (acc, reqs @ sent)
          else if (mostly_old dv dr y (items data) \<and> page > 1) \<or>
                  (case currentPage data of None \<Rightarrow> page | Some c \<Rightarrow> c) \<ge>
                    (case pageCount data of None \<Rightarrow> 999 | Some c \<Rightarrow> c) \<or>
                  length (acc @ kept_records dv dr y (items data)) \<ge> 50000 \<or>
                  page > 500
          then (acc @ kept_records dv dr y (items data), reqs @ sent)
          else extract_pages get dv dr y (page + 1)
                 (acc @ kept_records dv dr y (items data)) (reqs @ sent))"
  by (subst extract_pages.simps) (auto split: prod.splits option.splits)

declare extract_pages.simps [simp del]

lemma extract_pages_requests:
  assumes "1 \<le> page" "page \<le> 501"
  shows "\<exists>sent. snd (extract_pages get dv dr y page acc reqs) = reqs @ sent \<and>
           set sent \<subseteq> insert Plain_page (Sorted_page ` {page..501}) \<and>
           length sent \<le> 502 - page + (if page = 1 then 1 else 0) \<and>
           (\<forall>q \<ge> page. Sorted_page (Suc q) \<in> set sent \<longrightarrow>
              (\<exists>data. fst (request_page get q) = Some data \<and> items data \<noteq> []))"
  using assms
proof (induction "501 - page" arbitrary: page acc reqs rule: less_induct)
  case less
  note prems = less.prems
  obtain r sent0 where rp: "request_page get page = (r, sent0)" by force
  from request_page_sent [of get page] rp
  have s0: "sent0 = [Sorted_page page] \<or> (page = 1 \<and> sent0 = [Sorted_page page, Plain_page])"
    by simp
  let ?P = "\<lambda>sent. set sent \<subseteq> insert Plain_page (Sorted_page ` {page..501}) \<and>
           length sent \<le> 502 - page + (if page = 1 then 1 else 0) \<and>
           (\<forall>q \<ge> page. Sorted_page (Suc q) \<in> set sent \<longrightarrow>
              (\<exists>data. fst (request_page get q) = Some data \<and> items data \<noteq> []))"
  have base: "?P sent0" using s0 prems by auto
  show ?case
  proof (cases r)
    case None
    with rp base show ?thesis
      by (subst extract_pages_step) (auto simp del: extract_pages_step)
  next
    case (Some data)
    let ?stop = "items data = [] \<or> (mostly_old dv dr y (items data) \<and> page > 1) \<or>
                  (case currentPage data of None \<Rightarrow> page | Some c \<Rightarrow> c) \<ge>
                    (case pageCount data of None \<Rightarrow> 999 | Some c \<Rightarrow> c) \<or>
                  length (acc @ kept_records dv dr y (items data)) \<ge> 50000 \<or>
                  page > 500"
    show ?thesis
    proof (cases ?stop)
      case True
      then have "snd (extract_pages get dv dr y page acc reqs) = reqs @ sent0"
        using rp Some by (subst extract_pages_step) auto
      with base show ?thesis by blast
    next
      case False
      then have eq: "extract_pages get dv dr y page acc reqs =
          extract_pages get dv dr y (page + 1)
            (acc @ kept_records dv dr y (items data)) (reqs @ sent0)"
        using rp Some by (subst extract_pages_step) auto
      from False have p: "page \<le> 500" by simp
      have "\<exists>sent. snd (extract_pages get dv dr y (page + 1)
            (acc @ kept_records dv dr y (items data)) (reqs @ sent0)) = (reqs @ sent0) @ sent \<and>
           set sent \<subseteq> insert Plain_page (Sorted_page ` {page + 1..501}) \<and>
           length sent \<le> 502 - (page + 1) + (if page + 1 = 1 then 1 else 0) \<and>
           (\<forall>q \<ge> page + 1. Sorted_page (Suc q) \<in> set sent \<longrightarrow>
              (\<exists>data. fst (request_page get q) = Some data \<and> items data \<noteq> []))"
        using p prems by (intro less.hyps) auto
      then obtain sent1 where s1:
        "snd (extract_pages get dv dr y (page + 1)
            (acc @ kept_records dv dr y (items data)) (reqs @ sent0)) = (reqs @ sent0) @ sent1"
        "set sent1 \<subseteq> insert Plain_page (Sorted_page ` {page + 1..501})"
        "length sent1 \<le> 502 - (page + 1)"
        "\<forall>q \<ge> page + 1. Sorted_page (Suc q) \<in> set sent1 \<longrightarrow>
              (\<exists>data. fst (request_page get q) = Some data \<and> items data \<noteq> [])"
        using prems by auto
      have here: "fst (request_page get page) = Some data \<and> items data \<noteq> []"
        using rp Some False by simp
      have "?P (sent0 @ sent1)"
      proof (intro conjI allI impI)
        show "set (sent0 @ sent1) \<subseteq> insert Plain_page (Sorted_page ` {page..501})"
          using base s1(2) by auto
        show "length (sent0 @ sent1) \<le> 502 - page + (if page = 1 then 1 else 0)"
          using s0 s1(3) p by auto
      next
        fix q assume q: "page \<le> q" "Sorted_page (Suc q) \<in> set (sent0 @ sent1)"
        show "\<exists>data. fst (request_page get q) = Some data \<and> items data \<noteq> []"
        proof (cases "q = page")
          case True
          with here show ?thesis by blast
        next
          case False
          with q s0 have "page + 1 \<le> q" "Sorted_page (Suc q) \<in> set sent1" by auto
          with s1(4) show ?thesis by blast
        qed
      qed
      with eq s1(1) show ?thesis by (intro exI [of _ "sent0 @ sent1"]) simp
    qed
  qed
qed

lemma fetch_pages_Some:
  assumes "fetch_pages get page df_list requested = Some y"
  shows "\<exists>k \<ge> page. (\<forall>p \<in> {page..<k}. goes_on (get p)) \<and> \<not> goes_on (get k) \<and>
           y = (df_list @ map (\<lambda>p. page_rows (get p)) [page..<k], requested @ [page..<Suc k])"
proof -
  from fetch_pages_returns [OF assms] have ex: "\<exists>k. page \<le> k \<and> \<not> goes_on (get k)" by blast
  define k where "k = (LEAST k. page \<le> k \<and> \<not> goes_on (get k))"
  have k: "page \<le> k \<and> \<not> goes_on (get k)"
    unfolding k_def using ex by (rule LeastI_ex)
  have before: "goes_on (get p)" if "page \<le> p" "p < k" for p
    using that not_less_Least [of p "\<lambda>k. page \<le> k \<and> \<not> goes_on (get k)"] by (auto simp: k_def)
  with k fetch_pages_stops [of get k page df_list requested] assms
  have "y = (df_list @ map (\<lambda>p. page_rows (get p)) [page..<k], requested @ [page..<Suc k])"
    by auto
  with k before show ?thesis by (intro exI [of _ k]) auto
qed

lemma extract_pages_non_200:
  "non_200 (get (Sorted_page page)) \<Longrightarrow> page \<noteq> 1 \<Longrightarrow>
     extract_pages get dv dr y page acc reqs = (acc, reqs @ [Sorted_page page])"
  "non_200 (get (Sorted_page 1)) \<Longrightarrow> non_200 (get Plain_page) \<Longrightarrow>
     extract_pages get dv dr y 1 acc reqs = (acc, reqs @ [Sorted_page 1, Plain_page])"
  by (subst extract_pages_step;
      auto simp: non_200_def request_page_def split: sf_response.splits)+

lemma extract_pages_cap:
  assumes "request_page get page = (Some data, sent)" "items data \<noteq> []"
    "50000 \<le> length (acc @ kept_records dv dr y (items data)) \<or> 500 < page"
  shows "extract_pages get dv dr y page acc reqs =
           (acc @ kept_records dv dr y (items data), reqs @ sent)"
  using assms by (subst extract_pages_step) auto

lemma extract_pages_no_retry:
  assumes "2 \<le> page"
  shows "\<exists>sent. snd (extract_pages get dv dr y page acc reqs) = reqs @ sent \<and>
           Plain_page \<notin> set sent"
  using assms
proof (induction "501 - page" arbitrary: page acc reqs rule: less_induct)
  case less
  from less.prems have rp: "snd (request_page get page) = [Sorted_page page]"
    using request_page_sent [of get page] by auto
  obtain r sent0 where r: "request_page get page = (r, sent0)" by force
  with rp have s0: "sent0 = [Sorted_page page]" by simp
  show ?case
  proof (cases r)
    case None
    with r s0 show ?thesis by (subst extract_pages_step) simp
  next
    case (Some data)
    let ?stop = "items data = [] \<or> (mostly_old dv dr y (items data) \<and> page > 1) \<or>
                  (case currentPage data of None \<Rightarrow> page | Some c \<Rightarrow> c) \<ge>
                    (case pageCount data of None \<Rightarrow> 999 | Some c \<Rightarrow> c) \<or>
                  length (acc @ kept_records dv dr y (items data)) \<ge> 50000 \<or>
                  page > 500"
    show ?thesis
    proof (cases ?stop)
      case True
      then have "snd (extract_pages get dv dr y page acc reqs) = reqs @ sent0"
        using r Some by (subst extract_pages_step) auto
      with s0 show ?thesis by simp
    next
      case False
      then have eq: "extract_pages get dv dr y page acc reqs =
          extract_pages get dv dr y (page + 1)
            (acc @ kept_records dv dr y (items data)) (reqs @ sent0)"
        using r Some by (subst extract_pages_step) auto
      from False have p: "page \<le> 500" by simp
      have "\<exists>sent. snd (extract_pages get dv dr y (page + 1)
            (acc @ kept_records dv dr y (items data)) (reqs @ sent0)) = (reqs @ sent0) @ sent \<and>
            Plain_page \<notin> set sent"
        using p less.prems by (intro less.hyps) auto
      then obtain sent1 where
        "snd (extract_pages get dv dr y (page + 1)
            (acc @ kept_records dv dr y (items data)) (reqs @ sent0)) = (reqs @ sent0) @ sent1"
        "Plain_page \<notin> set sent1" by blast
      with eq s0 show ?thesis by (intro exI [of _ "sent0 @ sent1"]) simp
    qed
  qed
qed

lemma extract_pages_one_retry:
  "count_list (snd (extract_pages get dv dr y 1 [] [])) Plain_page =
     (if non_200 (get (Sorted_page 1)) then 1 else 0)"
proof -
  obtain r sent0 where r: "request_page get 1 = (r, sent0)" by force
  have s0: "count_list sent0 Plain_page = (if non_200 (get (Sorted_page 1)) then 1 else 0)"
    using r by (auto simp: request_page_def non_200_def split: sf_response.splits if_splits)
  show ?thesis
  proof (cases r)
    case None
    with r s0 show ?thesis by (subst extract_pages_step) simp
  next
    case (Some data)
    let ?stop = "items data = [] \<or> (mostly_old dv dr y (items data) \<and> (1::nat) > 1) \<or>
                  (case currentPage data of None \<Rightarrow> 1 | Some c \<Rightarrow> c) \<ge>
                    (case pageCount data of None \<Rightarrow> 999 | Some c \<Rightarrow> c) \<or>
                  length ([] @ kept_records dv dr y (items data)) \<ge> 50000 \<or>
                  (1::nat) > 500"
    show ?thesis
    proof (cases ?stop)
      case True
      then have "snd (extract_pages get dv dr y 1 [] []) = sent0"
        using r Some by (subst extract_pages_step) auto
      with s0 show ?thesis by simp
    next
      case False
      then have eq: "extract_pages get dv dr y 1 [] [] =
          extract_pages get dv dr y 2 (kept_records dv dr y (items data)) sent0"
        using r Some by (subst extract_pages_step) (auto simp: numeral_2_eq_2)
      from extract_pages_no_retry [of 2 get dv dr y "kept_records dv dr y (items data)" sent0]
      obtain sent1 where
        "snd (extract_pages get dv dr y 2 (kept_records dv dr y (items data)) sent0) =
           sent0 @ sent1" "Plain_page \<notin> set sent1" by auto
      with eq s0 show ?thesis by (simp add: count_list_0_iff)
    qed
  qed
qed

lemma extract_with_forced_sort_one_retry:
  "count_list (snd (extract_with_forced_sort authenticated get dv dr y)) Plain_page =
     (if authenticated \<and> non_200 (get (Sorted_page 1)) then 1 else 0)"
  using extract_pages_one_retry [of get dv dr y]
  by (simp add: extract_with_forced_sort_def)

lemma extract_pages_retry:
  assumes "non_200 (get (Sorted_page 1))" "get Plain_page = Sf_http 200 body"
  shows "extract_pages get dv dr y 1 acc reqs =
     (case body of
        None \<Rightarrow> (acc, reqs @ [Sorted_page 1, Plain_page])
      | Some data \<Rightarrow>
          if items data = [] then (acc, reqs @ [Sorted_page 1, Plain_page])
          else if (case currentPage data of None \<Rightarrow> 1 | Some c \<Rightarrow> c) \<ge>
                    (case pageCount data of None \<Rightarrow> 999 | Some c \<Rightarrow> c) \<or>
                  length (acc @ kept_records dv dr y (items data)) \<ge> 50000
          then (acc @ kept_records dv dr y (items data), reqs @ [Sorted_page 1, Plain_page])
          else extract_pages get dv dr y 2
                 (acc @ kept_records dv dr y (items data)) (reqs @ [Sorted_page 1, Plain_page]))"
proof -
  from assms have "request_page get 1 = (body, [Sorted_page 1, Plain_page])"
    by (auto simp: request_page_def non_200_def split: sf_response.splits)
  then show ?thesis
    by (subst extract_pages_step) (auto simp: numeral_2_eq_2 split: option.splits)
qed

text \<open>
  Claim C6, as amended. The safety caps belong to the Service Fusion extractor only.
  There, whatever the API answers, the loop sends requests for the pages 1 to 501 at
  most (and the one retry of page 1), 502 requests at most, and so it ends; a turn of
  the loop that leaves 50,000 records or more accumulated, or that handled a page after
  page 500, is the last one. The Kimai loop has no cap: it fails to return exactly when
  the API answers every page with status 200 and a list that is not empty.
\<close>

theorem extraction_caps:
  "set (snd (extract_with_forced_sort authenticated get dv dr y))
     \<subseteq> insert Plain_page (Sorted_page ` {1..501}) \<and>
   length (snd (extract_with_forced_sort authenticated get dv dr y)) \<le> 502 \<and>
   (request_page get page = (Some data, sent) \<and> items data \<noteq> [] \<and>
    (50000 \<le> length (acc @ kept_records dv dr y (items data)) \<or> 500 < page) \<longrightarrow>
      extract_pages get dv dr y page acc reqs =
        (acc @ kept_records dv dr y (items data), reqs @ sent)) \<and>
   (fetch_pages kget 1 [] [] = None \<longleftrightarrow> (\<forall>k \<ge> 1. goes_on (kget k)))"
proof -
  from extract_pages_requests [of 1 get dv dr y "[]" "[]"]
  have "set (snd (extract_pages get dv dr y 1 [] [])) \<subseteq> insert Plain_page (Sorted_page ` {1..501})"
    and "length (snd (extract_pages get dv dr y 1 [] [])) \<le> 502"
    by auto
  then have a: "set (snd (extract_with_forced_sort authenticated get dv dr y))
     \<subseteq> insert Plain_page (Sorted_page ` {1..501})"
    and b: "length (snd (extract_with_forced_sort authenticated get dv dr y)) \<le> 502"
    by (simp_all add: extract_with_forced_sort_def)
  from a b extract_pages_cap [of get page data sent acc dv dr y reqs]
    fetch_pages_None_iff [of kget 1 "[]" "[]"]
  show ?thesis by blast
qed

text \<open>
  Claim C6 as stated fails for the Kimai pipeline: against an API that answers every page
  of the Timesheets endpoint with one row, \<open>fetch_api_data\<close> does not return.
\<close>

theorem kimai_pages_never_end_counterexample:
  "fetch_api_data
     \<lparr>timesheets_get =
        (\<lambda>page. Kimai_http 200
           (Some [\<lparr>user = ''7'', begin_dt = Some 54000, end_dt = Some 55800,
                   project = ''1'', activity = 1, duration = Some 1800\<rparr>])),
      activities_get = Kimai_http 200 (Some [\<lparr>act_id = 1, act_name = Some ''Work''\<rparr>]),
      projects_get = Kimai_http 200
        (Some [\<lparr>proj_id = ''1'', proj_name = Some ''P'', parentTitle = Some ''TECO''\<rparr>]),
      users_get = Kimai_http 200 (Some [\<lparr>uid = ''7'', alias_name = Some ''Ann''\<rparr>])\<rparr> = None"
proof -
  have "fetch_pages
     (\<lambda>page. Kimai_http 200
           (Some [\<lparr>user = ''7'', begin_dt = Some 54000, end_dt = Some 55800,
                   project = ''1'', activity = 1, duration = Some 1800\<rparr>])) 1 [] [] = None"
    by (rule fetch_pages_diverges) (simp add: goes_on_def)
  then show ?thesis by (simp add: fetch_api_data_def)
qed

theorem extraction_caps_witness:
  "extract_pages (\<lambda>r. Sf_http 200 (Some \<lparr>items = [()], currentPage = None, pageCount = None\<rparr>))
     (\<lambda>r. None) ''All Data'' 2024 501 [] [] = ([()], [Sorted_page 501]) \<and>
   extract_pages (\<lambda>r. Sf_http 200 (Some \<lparr>items = [()], currentPage = None, pageCount = None\<rparr>))
     (\<lambda>r. None) ''All Data'' 2024 7 (replicate 49999 ()) [] =
       (replicate 49999 () @ [()], [Sorted_page 7]) \<and>
   fetch_pages (\<lambda>p. Kimai_http 404 (None :: unit list option)) 1 [] [] \<noteq> None"
proof -
  let ?get = "\<lambda>r :: sf_request.
    Sf_http 200 (Some \<lparr>items = [()], currentPage = None, pageCount = None\<rparr>)"
  let ?data = "\<lparr>items = [()], currentPage = None, pageCount = None\<rparr>"
  have rp: "request_page ?get p = (Some ?data, [Sorted_page p])" for p
    by (simp add: request_page_def)
  have k: "kept_records (\<lambda>r. None) ''All Data'' 2024 [()] = [()]"
    by (simp add: kept_records_def)
  note t1 = extraction_caps [of True ?get "\<lambda>r. None" "''All Data''" 2024 501 ?data
      "[Sorted_page 501]" "[]" "[]" "\<lambda>p. Kimai_http 404 None"]
  note t2 = extraction_caps [of True ?get "\<lambda>r. None" "''All Data''" 2024 7 ?data
      "[Sorted_page 7]" "replicate 49999 ()" "[]" "\<lambda>p. Kimai_http 404 None"]
  have g: "\<not> goes_on (Kimai_http 404 (None :: unit list option))"
    by (simp add: goes_on_def)
  have i1: "items ?data \<noteq> [] \<and> (50000 \<le> length ([] @ kept_records (\<lambda>r. None) ''All Data'' 2024
      (items ?data)) \<or> 500 < (501::nat))" by simp
  have i2: "items ?data \<noteq> [] \<and> (50000 \<le> length (replicate 49999 () @
      kept_records (\<lambda>r. None) ''All Data'' 2024 (items ?data)) \<or> 500 < (7::nat))"
    by (simp add: k)
  from t1 rp [of 501] i1 have
    "extract_pages ?get (\<lambda>r. None) ''All Data'' 2024 501 [] [] =
       ([] @ kept_records (\<lambda>r. None) ''All Data'' 2024 (items ?data), [] @ [Sorted_page 501])"
    by blast
  then have
    "extract_pages ?get (\<lambda>r. None) ''All Data'' 2024 501 [] [] = ([()], [Sorted_page 501])"
    by (simp add: k)
  moreover from t2 rp [of 7] i2 have
    "extract_pages ?get (\<lambda>r. None) ''All Data'' 2024 7 (replicate 49999 ()) [] =
       (replicate 49999 () @ kept_records (\<lambda>r. None) ''All Data'' 2024 (items ?data),
        [] @ [Sorted_page 7])"
    by blast
  then have
    "extract_pages ?get (\<lambda>r. None) ''All Data'' 2024 7 (replicate 49999 ()) [] =
       (replicate 49999 () @ [()], [Sorted_page 7])"
    by (simp add: k)
  moreover from t1 g have
    "fetch_pages (\<lambda>p. Kimai_http 404 (None :: unit list option)) 1 [] [] \<noteq> None"
    by auto
  ultimately show ?thesis by blast
qed

text \<open>
  Claim C7, as amended. The Kimai loop: where page \<open>k\<close> is the first page that is not
  answered with status 200 and a list that is not empty (a status other than 200, an
  exception, an empty or malformed body), the loop returns, it has requested exactly the
  pages 1 to \<open>k\<close> in order, and it returns the rows of the pages before \<open>k\<close>; and
  whenever it returns, it has done so in this way. The Service Fusion loop requests page
  \<open>q + 1\<close> only after page \<open>q\<close> was answered with records; a status other than 200 on
  a page after the first ends it with the records accumulated so far. On page 1 such a
  status is followed by a retry without the sort parameter: if the retry fails too, the
  loop ends there; if the retry is answered with status 200, the loop goes on from the
  body of the retry as from the answer to page 1 (it ends where the body does not decode
  or has no records or is the last page, and else goes to page 2). The retry is sent
  once, and only in a run that is authenticated and whose first request was answered
  with a status other than 200.
\<close>

theorem next_page_after_nonempty_page:
  "(fetch_pages kget 1 [] [] = Some (df_list, requested) \<longrightarrow>
      (\<exists>k \<ge> 1. requested = [1..<Suc k] \<and> df_list = map (\<lambda>p. page_rows (kget p)) [1..<k] \<and>
         (\<forall>p \<in> {1..<k}. goes_on (kget p)) \<and> \<not> goes_on (kget k))) \<and>
   (1 \<le> k \<and> \<not> goes_on (kget k) \<and> (\<forall>p. 1 \<le> p \<and> p < k \<longrightarrow> goes_on (kget p)) \<longrightarrow>
      fetch_pages kget 1 [] [] =
        Some (map (\<lambda>p. page_rows (kget p)) [1..<k], [1..<Suc k])) \<and>
   (\<forall>q \<ge> 1. Sorted_page (Suc q) \<in> set (snd (extract_with_forced_sort authenticated get dv dr y))
      \<longrightarrow> (\<exists>data. fst (request_page get q) = Some data \<and> items data \<noteq> [])) \<and>
   (non_200 (get (Sorted_page page)) \<and> page \<noteq> 1 \<longrightarrow>
      extract_pages get dv dr y page acc reqs = (acc, reqs @ [Sorted_page page])) \<and>
   (non_200 (get (Sorted_page 1)) \<and> non_200 (get Plain_page) \<longrightarrow>
      extract_pages get dv dr y 1 acc reqs = (acc, reqs @ [Sorted_page 1, Plain_page])) \<and>
   (non_200 (get (Sorted_page 1)) \<and> get Plain_page = Sf_http 200 body \<longrightarrow>
      extract_pages get dv dr y 1 acc reqs =
        (case body of
           None \<Rightarrow> (acc, reqs @ [Sorted_page 1, Plain_page])
         | Some data \<Rightarrow>
             if items data = [] then (acc, reqs @ [Sorted_page 1, Plain_page])
             else if (case currentPage data of None \<Rightarrow> 1 | Some c \<Rightarrow> c) \<ge>
                       (case pageCount data of None \<Rightarrow> 999 | Some c \<Rightarrow> c) \<or>
                     length (acc @ kept_records dv dr y (items data)) \<ge> 50000
             then (acc @ kept_records dv dr y (items data),
                   reqs @ [Sorted_page 1, Plain_page])
             else extract_pages get dv dr y 2
                    (acc @ kept_records dv dr y (items data))
                    (reqs @ [Sorted_page 1, Plain_page]))) \<and>
   count_list (snd (extract_with_forced_sort authenticated get dv dr y)) Plain_page =
     (if authenticated \<and> non_200 (get (Sorted_page 1)) then 1 else 0)"
proof -
  have a: "\<exists>k \<ge> 1. requested = [1..<Suc k] \<and> df_list = map (\<lambda>p. page_rows (kget p)) [1..<k] \<and>
         (\<forall>p \<in> {1..<k}. goes_on (kget p)) \<and> \<not> goes_on (kget k)"
    if "fetch_pages kget 1 [] [] = Some (df_list, requested)"
    using fetch_pages_Some [OF that] by auto
  have t: "fetch_pages kget 1 [] [] =
        Some (map (\<lambda>p. page_rows (kget p)) [1..<k], [1..<Suc k])"
    if "1 \<le> k \<and> \<not> goes_on (kget k) \<and> (\<forall>p. 1 \<le> p \<and> p < k \<longrightarrow> goes_on (kget p))"
    using fetch_pages_stops [of kget k 1 "[]" "[]"] that by simp
  from extract_pages_requests [of 1 get dv dr y "[]" "[]"]
  have "\<forall>q \<ge> 1. Sorted_page (Suc q) \<in> set (snd (extract_pages get dv dr y 1 [] []))
      \<longrightarrow> (\<exists>data. fst (request_page get q) = Some data \<and> items data \<noteq> [])"
    by auto
  then have b: "\<forall>q \<ge> 1.
      Sorted_page (Suc q) \<in> set (snd (extract_with_forced_sort authenticated get dv dr y))
      \<longrightarrow> (\<exists>data. fst (request_page get q) = Some data \<and> items data \<noteq> [])"
    by (simp add: extract_with_forced_sort_def)
  note c = extract_pages_non_200(1) [of get page dv dr y acc reqs]
  note d = extract_pages_non_200(2) [of get dv dr y acc reqs]
  note e = extract_pages_retry [of get body dv dr y acc reqs]
  note f = extract_with_forced_sort_one_retry [of authenticated get dv dr y]
  show ?thesis
    apply (intro conjI impI)
    subgoal using a by blast
    subgoal using t by blast
    subgoal using b by blast
    subgoal using c by blast
    subgoal using d by blast
    subgoal using e by blast
    subgoal using f by blast
    done
qed

text \<open>
  Claim C7 as stated fails for the Service Fusion extractor: when the first request of
  page 1 is answered with status 500, the extractor sends a second request, without the
  sort parameter, and goes on with its answer.
\<close>

theorem retry_after_first_failure_counterexample:
  "non_200 ((\<lambda>r. case r of
               Sorted_page p \<Rightarrow> Sf_http 500 None
             | Plain_page \<Rightarrow>
                 Sf_http 200 (Some \<lparr>items = [()], currentPage = Some 1, pageCount = Some 1\<rparr>))
            (Sorted_page 1)) \<and>
   extract_with_forced_sort True
     (\<lambda>r. case r of
             Sorted_page p \<Rightarrow> Sf_http 500 None
           | Plain_page \<Rightarrow>
               Sf_http 200 (Some \<lparr>items = [()], currentPage = Some 1, pageCount = Some 1\<rparr>))
     (\<lambda>r. None) ''All Data'' 2024 = ([()], [Sorted_page 1, Plain_page])"
  by (simp add: non_200_def extract_with_forced_sort_def extract_pages_step request_page_def
      kept_records_def mostly_old_def)

theorem next_page_after_nonempty_page_witness:
  "fetch_pages
     (\<lambda>p. if p = 1 then Kimai_http 200 (Some [''a''])
           else if p = 2 then Kimai_http 200 (Some [''b''])
           else Kimai_http 500 None) 1 [] [] = Some ([[''a''], [''b'']], [1, 2, 3]) \<and>
   (\<exists>k \<ge> 1. [1, 2, 3] = [1..<Suc k]) \<and>
   extract_pages (\<lambda>r. Sf_http 503 (None :: unit sf_body option)) (\<lambda>r. None) ''All Data'' 2024 4 [()] [] =
     ([()], [Sorted_page 4]) \<and>
   extract_pages (\<lambda>r. Sf_http 503 (None :: unit sf_body option)) (\<lambda>r. None) ''All Data'' 2024 1 [] [] =
     ([], [Sorted_page 1, Plain_page]) \<and>
   extract_pages
     (\<lambda>r. case r of
             Sorted_page p \<Rightarrow> Sf_http 500 None
           | Plain_page \<Rightarrow>
               Sf_http 200 (Some \<lparr>items = [()], currentPage = Some 1, pageCount = Some 1\<rparr>))
     (\<lambda>r. None) ''All Data'' 2024 1 [] [] = ([()], [Sorted_page 1, Plain_page]) \<and>
   count_list
     (snd (extract_with_forced_sort True
        (\<lambda>r. case r of
                Sorted_page p \<Rightarrow> Sf_http 500 None
              | Plain_page \<Rightarrow>
                  Sf_http 200 (Some \<lparr>items = [()], currentPage = Some 1, pageCount = Some 1\<rparr>))
        (\<lambda>r. None) ''All Data'' 2024)) Plain_page = 1"
proof -
  let ?kget = "\<lambda>p :: nat. if p = 1 then Kimai_http 200 (Some [''a''])
           else if p = 2 then Kimai_http 200 (Some [''b''])
           else Kimai_http 500 None"
  let ?get = "\<lambda>r :: sf_request. Sf_http 503 (None :: unit sf_body option)"
  let ?body = "Some \<lparr>items = [()], currentPage = Some 1, pageCount = Some (1 :: nat)\<rparr>"
  let ?rget = "\<lambda>r :: sf_request. case r of
             Sorted_page p \<Rightarrow> Sf_http 500 None
           | Plain_page \<Rightarrow> Sf_http 200 ?body"
  note t = next_page_after_nonempty_page
    [where kget = ?kget and df_list = "[[''a''], [''b'']]" and requested = "[1, 2, 3]"
       and k = 3 and authenticated = True and get = ?get and dv = "\<lambda>r. None"
       and dr = "''All Data''" and y = 2024 and page = 4 and acc = "[()]" and reqs = "[]"
       and body = None]
  note u = next_page_after_nonempty_page
    [where kget = ?kget and df_list = "[[''a''], [''b'']]" and requested = "[1, 2, 3]"
       and k = 3 and authenticated = True and get = ?get and dv = "\<lambda>r. None"
       and dr = "''All Data''" and y = 2024 and page = 1 and acc = "[]" and reqs = "[]"
       and body = None]
  note v = next_page_after_nonempty_page
    [where kget = ?kget and df_list = "[[''a''], [''b'']]" and requested = "[1, 2, 3]"
       and k = 3 and authenticated = True and get = ?rget and dv = "\<lambda>r. None"
       and dr = "''All Data''" and y = 2024 and page = 1 and acc = "[]" and reqs = "[]"
       and body = ?body]
  have g: "(1 :: nat) \<le> 3 \<and> \<not> goes_on (?kget 3) \<and>
           (\<forall>p. 1 \<le> p \<and> p < 3 \<longrightarrow> goes_on (?kget p))"
    by (auto simp: goes_on_def)
  from t g have "fetch_pages ?kget 1 [] [] =
     Some (map (\<lambda>p. page_rows (?kget p)) [1..<3], [1..<Suc 3])"
    by blast
  moreover have "[1..<3] = [1, 2::nat]" "[1..<Suc 3] = [1, 2, 3::nat]"
    by (simp_all add: upt_conv_Cons)
  ultimately have f: "fetch_pages ?kget 1 [] [] = Some ([[''a''], [''b'']], [1, 2, 3])"
    by (simp add: page_rows_def)
  have n: "non_200 (?get r)" for r by (simp add: non_200_def)
  have rn: "non_200 (?rget (Sorted_page 1)) \<and> ?rget Plain_page = Sf_http 200 ?body"
    by (simp add: non_200_def)
  from t f have "\<exists>k \<ge> 1. [1, 2, 3] = [1..<Suc k]" by blast
  moreover from t n have
    "extract_pages ?get (\<lambda>r. None) ''All Data'' 2024 4 [()] [] = ([()], [Sorted_page 4])"
    by simp
  moreover from u n have
    "extract_pages ?get (\<lambda>r. None) ''All Data'' 2024 1 [] [] = ([], [Sorted_page 1, Plain_page])"
    by simp
  moreover from v rn have
    "extract_pages ?rget (\<lambda>r. None) ''All Data'' 2024 1 [] [] =
       (case ?body of
           None \<Rightarrow> ([], [] @ [Sorted_page 1, Plain_page])
         | Some data \<Rightarrow>
             if items data = [] then ([], [] @ [Sorted_page 1, Plain_page])
             else if (case currentPage data of None \<Rightarrow> 1 | Some c \<Rightarrow> c) \<ge>
                       (case pageCount data of None \<Rightarrow> 999 | Some c \<Rightarrow> c) \<or>
                     length ([] @ kept_records (\<lambda>r. None) ''All Data'' 2024 (items data)) \<ge> 50000
             then ([] @ kept_records (\<lambda>r. None) ''All Data'' 2024 (items data),
                   [] @ [Sorted_page 1, Plain_page])
             else extract_pages ?rget (\<lambda>r. None) ''All Data'' 2024 2
                    ([] @ kept_records (\<lambda>r. None) ''All Data'' 2024 (items data))
                    ([] @ [Sorted_page 1, Plain_page]))"
    by blast
  then have
    "extract_pages ?rget (\<lambda>r. None) ''All Data'' 2024 1 [] [] =
       ([()], [Sorted_page 1, Plain_page])"
    by (simp add: kept_records_def)
  moreover from v have
    "count_list (snd (extract_with_forced_sort True ?rget (\<lambda>r. None) ''All Data'' 2024))
       Plain_page = (if True \<and> non_200 (?rget (Sorted_page 1)) then 1 else 0)"
    by blast
  then have
    "count_list (snd (extract_with_forced_sort True ?rget (\<lambda>r. None) ''All Data'' 2024))
       Plain_page = 1"
    by (simp add: non_200_def)
  ultimately show ?thesis using f by blast
qed
section \<open>The roster of customers and its sheets\<close>

lemma groupby_sum_keys:
  "fst ` set (groupby_sum key val rs) = {k. \<exists>r \<in> set rs. key r = Some k}"
  by (force simp: groupby_sum_def groupby_def List.map_filter_def image_iff)

lemma roster_title:
  "customer \<in> set EXPECTED_CUSTOMERS \<Longrightarrow> take 31 customer = customer"
  by (auto simp: EXPECTED_CUSTOMERS_def)

lemma customer_sheet_title:
  "sheet_title (customer_sheet rnd df_ytd grouped customer) = take 31 customer"
  by (simp add: customer_sheet_def Let_def)

lemma filter_map_distinct:
  "distinct xs \<Longrightarrow> c \<in> set xs \<Longrightarrow> \<forall>x \<in> set xs. t (f x) = x
     \<Longrightarrow> filter (\<lambda>s. t s = c) (map f xs) = [f c]"
proof (induction xs)
  case Nil
  then show ?case by simp
next
  case (Cons x xs)
  show ?case
  proof (cases "x = c")
    case True
    with Cons.prems have "c \<notin> set xs" and "\<forall>y \<in> set xs. t (f y) \<noteq> c" by auto
    then have "filter (\<lambda>s. t s = c) (map f xs) = []" by (simp add: filter_empty_conv)
    with True Cons.prems show ?thesis by simp
  next
    case False
    with Cons show ?thesis by auto
  qed
qed

lemma fixed_titles:
  "customer \<in> set EXPECTED_CUSTOMERS \<Longrightarrow>
     customer \<noteq> ''Employee Summary'' \<and> customer \<noteq> ''Activity Details'' \<and>
     customer \<noteq> ''Customer Hours Summary'' \<and> customer \<noteq> ''YTD Break Analysis''"
  by (auto simp: EXPECTED_CUSTOMERS_def)

lemma workbook_filter:
  assumes "customer \<in> set EXPECTED_CUSTOMERS"
  shows "filter (\<lambda>s. sheet_title s = customer)
           (customer_reports_workbook rnd strftime_date now roster_order timesheets_df breaks_df) =
         filter (\<lambda>s. sheet_title s = customer)
           (map (customer_sheet rnd
                   (filter (\<lambda>r. t_customer r \<noteq> Some ''General Admin'') timesheets_df)
                   (groupby_sum key_customer_user hours
                      (filter (\<lambda>r. t_customer r \<noteq> Some ''General Admin'') timesheets_df)))
              roster_order)"
  using fixed_titles [OF assms]
  by (auto simp: customer_reports_workbook_def Let_def)

lemma no_records_no_group:
  assumes "\<forall>r \<in> set rs. t_customer r \<noteq> Some customer"
  shows "customer \<notin> (fst \<circ> fst) ` set (groupby_sum key_customer_user hours rs)"
proof
  assume "customer \<in> (fst \<circ> fst) ` set (groupby_sum key_customer_user hours rs)"
  then obtain k where "k \<in> fst ` set (groupby_sum key_customer_user hours rs)" "fst k = customer"
    by force
  then obtain r where "r \<in> set rs" "key_customer_user r = Some k"
    unfolding groupby_sum_keys by blast
  with \<open>fst k = customer\<close> assms show False
    by (auto simp: key_customer_user_def split: option.splits)
qed

lemma filter_map_none:
  "\<forall>x \<in> set xs. t (f x) \<noteq> c \<Longrightarrow> filter (\<lambda>s. t s = c) (map f xs) = []"
  by (induction xs) auto

lemma general_admin_in_roster: "''General Admin'' \<in> set EXPECTED_CUSTOMERS"
  by (simp add: EXPECTED_CUSTOMERS_def)

lemma no_sheet_for_general_admin:
  assumes "set roster_order = set EXPECTED_CUSTOMERS - {''General Admin''}"
  shows "filter (\<lambda>s. sheet_title s = ''General Admin'')
           (customer_reports_workbook rnd strftime_date now roster_order timesheets_df
              breaks_df) = []"
proof -
  let ?df = "filter (\<lambda>r. t_customer r \<noteq> Some ''General Admin'') timesheets_df"
  let ?g = "groupby_sum key_customer_user hours ?df"
  have "\<forall>x \<in> set roster_order. sheet_title (customer_sheet rnd ?df ?g x) \<noteq> ''General Admin''"
    using assms by (auto simp: customer_sheet_title roster_title)
  then show ?thesis
    unfolding workbook_filter [OF general_admin_in_roster]
    by (rule filter_map_none [where t = sheet_title])
qed

lemma sheet_for_roster_customer:
  assumes "distinct roster_order"
    and "set roster_order = set EXPECTED_CUSTOMERS - {''General Admin''}"
    and "customer \<in> set EXPECTED_CUSTOMERS" and "customer \<noteq> ''General Admin''"
  shows "\<exists>s. filter (\<lambda>s. sheet_title s = customer)
               (customer_reports_workbook rnd strftime_date now roster_order timesheets_df
                  breaks_df) = [s] \<and>
             ((\<forall>r \<in> set timesheets_df. t_customer r \<noteq> Some customer) \<longrightarrow>
                sheet_rows s =
                  [customer_header,
                   [Text [], Number 0, Text [], Text [], Number 0, Number 0]])"
proof -
  let ?df = "filter (\<lambda>r. t_customer r \<noteq> Some ''General Admin'') timesheets_df"
  let ?g = "groupby_sum key_customer_user hours ?df"
  let ?s = "customer_sheet rnd ?df ?g customer"
  have mem: "customer \<in> set roster_order" using assms by simp
  have titles: "\<forall>x \<in> set roster_order. sheet_title (customer_sheet rnd ?df ?g x) = x"
    using assms(2) by (simp add: customer_sheet_title roster_title)
  have "filter (\<lambda>s. sheet_title s = customer)
          (customer_reports_workbook rnd strftime_date now roster_order timesheets_df breaks_df)
        = [?s]"
    unfolding workbook_filter [OF assms(3)]
    by (rule filter_map_distinct [where t = sheet_title, OF assms(1) mem titles])
  moreover have "sheet_rows ?s =
      [customer_header, [Text [], Number 0, Text [], Text [], Number 0, Number 0]]"
    if "\<forall>r \<in> set timesheets_df. t_customer r \<noteq> Some customer"
  proof -
    from that have "\<forall>r \<in> set ?df. t_customer r \<noteq> Some customer" by simp
    from no_records_no_group [OF this] show ?thesis
      by (simp add: customer_sheet_def)
  qed
  ultimately show ?thesis by blast
qed

lemma ex_roster_ok:
  "distinct ex_roster \<and> set ex_roster = set EXPECTED_CUSTOMERS - {''General Admin''}"
  by (simp add: ex_roster_def EXPECTED_CUSTOMERS_def insert_Diff_if insert_commute)

lemma ex_two_customers_resolved:
  "process_timesheet_mappings (\<lambda>t. - 18000) (\<lambda>n x. x) ex_two_customers =
     Some ([\<lparr>t_activity = Some ''Install'', t_project = Some ''Tower'', t_user = Some ''ann'',
              t_customer = Some ''DUKE'', t_date = Some 20156, t_duration = Some 1\<rparr>,
            \<lparr>t_activity = Some ''Install'', t_project = Some ''Office'', t_user = Some ''ann'',
              t_customer = Some ''General Admin'', t_date = Some 20156,
              t_duration = Some (1 / 2)\<rparr>], [])"
  by (simp add: process_timesheet_mappings_def ex_two_customers_def Let_def resolve_row_def
      dict_zip_def map_lookup_def date_only_def wall_clock_def calculate_breaks_from_raw_data_def
      dropna_def List.map_filter_def groupby_def group_record_def hour_def)

text \<open>
  Claim C3, as amended. The sheets are made for the customers of the roster other than
  \<open>General Admin\<close>, whatever the order in which the set is iterated and whatever the
  data: for each of them the workbook has exactly one sheet with the name of the
  customer, and where no timesheet row carries that customer the sheet holds the header
  row and one placeholder row of empty and zero cells. The roster entry
  \<open>General Admin\<close> never has a sheet.
\<close>

theorem roster_customer_other_than_general_admin_has_sheet:
  assumes "distinct roster_order"
    and "set roster_order = set EXPECTED_CUSTOMERS - {''General Admin''}"
  shows "(\<forall>customer \<in> set EXPECTED_CUSTOMERS. customer \<noteq> ''General Admin'' \<longrightarrow>
           (\<exists>s. filter (\<lambda>s. sheet_title s = customer)
                  (customer_reports_workbook rnd strftime_date now roster_order timesheets_df
                     breaks_df) = [s] \<and>
                ((\<forall>r \<in> set timesheets_df. t_customer r \<noteq> Some customer) \<longrightarrow>
                   sheet_rows s =
                     [customer_header,
                      [Text [], Number 0, Text [], Text [], Number 0, Number 0]]))) \<and>
         ''General Admin'' \<in> set EXPECTED_CUSTOMERS \<and>
         filter (\<lambda>s. sheet_title s = ''General Admin'')
           (customer_reports_workbook rnd strftime_date now roster_order timesheets_df
              breaks_df) = []"
  using sheet_for_roster_customer [OF assms] no_sheet_for_general_admin [OF assms(2)]
    general_admin_in_roster
  by blast

text \<open>
  The run on two timesheets of one employee, one hour for \<open>DUKE\<close> and half an hour for
  \<open>General Admin\<close>: the sheet of \<open>Lumen\<close> is the placeholder, and there is no sheet
  of \<open>General Admin\<close>.
\<close>

theorem roster_customer_other_than_general_admin_has_sheet_witness:
  "process_timesheet_mappings (\<lambda>t. - 18000) (\<lambda>n x. x) ex_two_customers =
     Some ([\<lparr>t_activity = Some ''Install'', t_project = Some ''Tower'', t_user = Some ''ann'',
              t_customer = Some ''DUKE'', t_date = Some 20156, t_duration = Some 1\<rparr>,
            \<lparr>t_activity = Some ''Install'', t_project = Some ''Office'', t_user = Some ''ann'',
              t_customer = Some ''General Admin'', t_date = Some 20156,
              t_duration = Some (1 / 2)\<rparr>], []) \<and>
   (\<exists>s. filter (\<lambda>s. sheet_title s = ''Lumen'')
          (customer_reports_workbook (\<lambda>n x. x) (\<lambda>d. []) ex_now ex_roster
             [\<lparr>t_activity = Some ''Install'', t_project = Some ''Tower'', t_user = Some ''ann'',
               t_customer = Some ''DUKE'', t_date = Some 20156, t_duration = Some 1\<rparr>,
              \<lparr>t_activity = Some ''Install'', t_project = Some ''Office'', t_user = Some ''ann'',
               t_customer = Some ''General Admin'', t_date = Some 20156,
               t_duration = Some (1 / 2)\<rparr>] []) = [s] \<and>
        sheet_rows s =
          [customer_header, [Text [], Number 0, Text [], Text [], Number 0, Number 0]]) \<and>
   filter (\<lambda>s. sheet_title s = ''General Admin'')
     (customer_reports_workbook (\<lambda>n x. x) (\<lambda>d. []) ex_now ex_roster
        [\<lparr>t_activity = Some ''Install'', t_project = Some ''Tower'', t_user = Some ''ann'',
          t_customer = Some ''DUKE'', t_date = Some 20156, t_duration = Some 1\<rparr>,
         \<lparr>t_activity = Some ''Install'', t_project = Some ''Office'', t_user = Some ''ann'',
          t_customer = Some ''General Admin'', t_date = Some 20156,
          t_duration = Some (1 / 2)\<rparr>] []) = []"
proof -
  let ?df = "[\<lparr>t_activity = Some ''Install'', t_project = Some ''Tower'', t_user = Some ''ann'',
               t_customer = Some ''DUKE'', t_date = Some 20156, t_duration = Some (1 :: rat)\<rparr>,
              \<lparr>t_activity = Some ''Install'', t_project = Some ''Office'', t_user = Some ''ann'',
               t_customer = Some ''General Admin'', t_date = Some 20156,
               t_duration = Some (1 / 2)\<rparr>]"
  from ex_roster_ok have d: "distinct ex_roster"
    and r: "set ex_roster = set EXPECTED_CUSTOMERS - {''General Admin''}" by simp_all
  note t = roster_customer_other_than_general_admin_has_sheet
    [where rnd = "\<lambda>n x. x" and strftime_date = "\<lambda>d. []" and now = ex_now
       and timesheets_df = ?df and breaks_df = "[]", OF d r]
  have l1: "''Lumen'' \<in> set EXPECTED_CUSTOMERS" by (simp add: EXPECTED_CUSTOMERS_def)
  have l2: "''Lumen'' \<noteq> ''General Admin''" by simp
  have l3: "\<forall>r \<in> set ?df. t_customer r \<noteq> Some ''Lumen''" by simp
  from t [THEN conjunct1, THEN bspec, OF l1, THEN mp, OF l2] l3
  have a: "\<exists>s. filter (\<lambda>s. sheet_title s = ''Lumen'')
          (customer_reports_workbook (\<lambda>n x. x) (\<lambda>d. []) ex_now ex_roster ?df []) = [s] \<and>
        sheet_rows s =
          [customer_header, [Text [], Number 0, Text [], Text [], Number 0, Number 0]]"
    by (elim exE conjE) (intro exI conjI, assumption, erule mp, assumption)
  show ?thesis
    apply (intro conjI)
      apply (rule ex_two_customers_resolved)
     apply (rule a)
    apply (rule t [THEN conjunct2, THEN conjunct2])
    done
qed

text \<open>
  Claim C3 as stated fails for the roster entry \<open>General Admin\<close>: it is in
  \<open>EXPECTED_CUSTOMERS\<close>, and the workbook of the run above, in which half an hour was
  booked on \<open>General Admin\<close>, has no sheet of that name among its thirteen sheets.
\<close>

theorem general_admin_has_no_sheet_counterexample:
  "''General Admin'' \<in> set EXPECTED_CUSTOMERS \<and>
   distinct ex_roster \<and> set ex_roster = set EXPECTED_CUSTOMERS - {''General Admin''} \<and>
   process_timesheet_mappings (\<lambda>t. - 18000) (\<lambda>n x. x) ex_two_customers =
     Some ([\<lparr>t_activity = Some ''Install'', t_project = Some ''Tower'', t_user = Some ''ann'',
              t_customer = Some ''DUKE'', t_date = Some 20156, t_duration = Some 1\<rparr>,
            \<lparr>t_activity = Some ''Install'', t_project = Some ''Office'', t_user = Some ''ann'',
              t_customer = Some ''General Admin'', t_date = Some 20156,
              t_duration = Some (1 / 2)\<rparr>], []) \<and>
   map sheet_title
     (customer_reports_workbook (\<lambda>n x. x) (\<lambda>d. []) ex_now ex_roster
        [\<lparr>t_activity = Some ''Install'', t_project = Some ''Tower'', t_user = Some ''ann'',
          t_customer = Some ''DUKE'', t_date = Some 20156, t_duration = Some 1\<rparr>,
         \<lparr>t_activity = Some ''Install'', t_project = Some ''Office'', t_user = Some ''ann'',
          t_customer = Some ''General Admin'', t_date = Some 20156,
          t_duration = Some (1 / 2)\<rparr>] []) =
     [''Employee Summary'', ''Activity Details'', ''Customer Hours Summary'',
      ''TDS'', ''Bluewater Operations'', ''Construction'', ''DUKE'', ''Fire Dragon'',
      ''Flock'', ''Lumen'', ''Redspeed'', ''SCC- Miami Dade'', ''TECO'']"
proof -
  have "map sheet_title
     (customer_reports_workbook (\<lambda>n x. x) (\<lambda>d. []) ex_now ex_roster
        [\<lparr>t_activity = Some ''Install'', t_project = Some ''Tower'', t_user = Some ''ann'',
          t_customer = Some ''DUKE'', t_date = Some 20156, t_duration = Some 1\<rparr>,
         \<lparr>t_activity = Some ''Install'', t_project = Some ''Office'', t_user = Some ''ann'',
          t_customer = Some ''General Admin'', t_date = Some 20156,
          t_duration = Some (1 / 2)\<rparr>] []) =
     [''Employee Summary'', ''Activity Details'', ''Customer Hours Summary'',
      ''TDS'', ''Bluewater Operations'', ''Construction'', ''DUKE'', ''Fire Dragon'',
      ''Flock'', ''Lumen'', ''Redspeed'', ''SCC- Miami Dade'', ''TECO'']"
    by (simp add: customer_reports_workbook_def Let_def customer_sheet_title ex_roster_def
        comp_def)
  then show ?thesis
    apply (intro conjI)
        apply (rule general_admin_in_roster)
       apply (rule ex_roster_ok [THEN conjunct1])
      apply (rule ex_roster_ok [THEN conjunct2])
     apply (rule ex_two_customers_resolved)
    apply assumption
    done
qed

section \<open>Identifiers without a reference entry\<close>

lemma map_filter_filter:
  assumes "\<And>r. f r \<noteq> None \<Longrightarrow> P r"
  shows "List.map_filter f (filter P rs) = List.map_filter f rs"
proof -
  have "filter (\<lambda>x. f x \<noteq> None) (filter P rs) = filter (\<lambda>x. f x \<noteq> None) rs"
    using assms by (auto intro: filter_cong)
  then show ?thesis by (simp add: List.map_filter_def)
qed

lemma groupby_sum_filter:
  assumes "\<And>r. key r \<noteq> None \<Longrightarrow> P r"
  shows "groupby_sum key val (filter P rs) = groupby_sum key val rs"
proof -
  have "List.map_filter (\<lambda>r. map_option (\<lambda>k. (k, val r)) (key r)) (filter P rs) =
        List.map_filter (\<lambda>r. map_option (\<lambda>k. (k, val r)) (key r)) rs"
    by (rule map_filter_filter) (use assms in auto)
  then show ?thesis by (simp add: groupby_sum_def)
qed

lemma dict_zip_None:
  "k \<notin> set ks \<Longrightarrow> dict_zip ks vs k = None"
  by (auto simp: dict_zip_def map_of_eq_None_iff dest: set_zip_leftD)

lemma dict_zip_map_None:
  "k \<notin> f ` set rs \<Longrightarrow> map_lookup (dict_zip (map f rs) (map g rs)) k = None"
  by (simp add: map_lookup_def dict_zip_None)

lemma customer_sheet_filter:
  "customer_sheet rnd (filter (\<lambda>r. t_customer r \<noteq> None) df) g c = customer_sheet rnd df g c"
proof -
  have "filter (\<lambda>r. t_customer r = Some c) (filter (\<lambda>r. t_customer r \<noteq> None) df) =
        filter (\<lambda>r. t_customer r = Some c) df"
    by (auto intro: filter_cong)
  then show ?thesis by (simp add: customer_sheet_def)
qed

lemma workbook_drops_rows_without_customer:
  "customer_reports_workbook rnd strftime_date now roster_order
     (filter (\<lambda>r. t_customer r \<noteq> None) timesheets_df) breaks_df =
   customer_reports_workbook rnd strftime_date now roster_order timesheets_df breaks_df"
proof -
  let ?P = "\<lambda>r. t_customer r \<noteq> None"
  let ?df = "filter (\<lambda>r. t_customer r \<noteq> Some ''General Admin'') timesheets_df"
  have df: "filter (\<lambda>r. t_customer r \<noteq> Some ''General Admin'') (filter ?P timesheets_df) =
            filter ?P ?df"
    by (auto intro: filter_cong)
  have g1: "groupby_sum key_customer_user hours (filter ?P ?df) =
            groupby_sum key_customer_user hours ?df"
    by (rule groupby_sum_filter) (auto simp: key_customer_user_def split: option.splits)
  have g2: "groupby_sum key_detailed hours (filter ?P ?df) = groupby_sum key_detailed hours ?df"
    by (rule groupby_sum_filter) (auto simp: key_detailed_def split: option.splits)
  have g3: "groupby_sum t_customer hours (filter ?P ?df) = groupby_sum t_customer hours ?df"
    by (rule groupby_sum_filter) simp
  show ?thesis
    unfolding customer_reports_workbook_def df Let_def g1 g2 g3 customer_sheet_filter ..
qed

lemma summary_drops_rows_without_user:
  "summary_workbook rnd (filter (\<lambda>r. t_user r \<noteq> None) timesheets_df) =
   summary_workbook rnd timesheets_df"
proof -
  have "groupby_sum t_user hours (filter (\<lambda>r. t_user r \<noteq> None) timesheets_df) =
        groupby_sum t_user hours timesheets_df"
    by (rule groupby_sum_filter) simp
  then show ?thesis by (simp add: summary_workbook_def)
qed

text \<open>
  Claim C5. The first half holds: with the four frames present the resolver returns a
  frame with one row per timesheet, and an id that is not in its reference frame gives a
  missing name (\<open>None\<close>), not an error. The second half fails: the aggregation has no
  bucket for missing names. \<open>groupby\<close> leaves out every row with a missing key, so the
  customer workbook is the one of the frame without the rows of unknown customer, and
  the summary workbook is the one of the frame without the rows of unknown user: the
  hours of these rows are in no total.
\<close>

theorem rows_with_unresolved_ids_are_dropped:
  assumes "Timesheets frames = Some timesheets_raw_df" and "Activities frames = Some activities_df"
    and "Projects frames = Some projects_df" and "Users frames = Some users_df"
  shows "\<exists>timesheets_df breaks_df.
           process_timesheet_mappings tz rnd frames = Some (timesheets_df, breaks_df) \<and>
           length timesheets_df = length timesheets_raw_df \<and>
           (\<forall>i < length timesheets_raw_df.
              (user (timesheets_raw_df ! i) \<notin> uid ` set users_df \<longrightarrow>
                 t_user (timesheets_df ! i) = None) \<and>
              (project (timesheets_raw_df ! i) \<notin> proj_id ` set projects_df \<longrightarrow>
                 t_customer (timesheets_df ! i) = None \<and> t_project (timesheets_df ! i) = None) \<and>
              (activity (timesheets_raw_df ! i) \<notin> act_id ` set activities_df \<longrightarrow>
                 t_activity (timesheets_df ! i) = None)) \<and>
           customer_reports_workbook rnd strftime_date now roster_order timesheets_df breaks_df =
             customer_reports_workbook rnd strftime_date now roster_order
               (filter (\<lambda>r. t_customer r \<noteq> None) timesheets_df) breaks_df \<and>
           summary_workbook rnd timesheets_df =
             summary_workbook rnd (filter (\<lambda>r. t_user r \<noteq> None) timesheets_df)"
  using assms
  by (simp add: process_timesheet_mappings_def Let_def resolve_row_def dict_zip_map_None
        workbook_drops_rows_without_customer summary_drops_rows_without_user
      del: not_None_eq)

lemma ex_unresolved_report:
  "take 3 (customer_reports_workbook (\<lambda>n x. x) (\<lambda>d. []) ex_now ex_roster
     [\<lparr>t_activity = Some ''Install'', t_project = Some ''Tower'', t_user = None,
       t_customer = Some ''DUKE'', t_date = Some 20156, t_duration = Some 1\<rparr>] []) =
   [\<lparr>sheet_title = ''Employee Summary'',
     sheet_rows = [[Text ''Customer'', Text ''Employee'', Text ''TotalHours'', Text ''Date'']]\<rparr>,
    \<lparr>sheet_title = ''Activity Details'',
     sheet_rows = [[Text ''Customer'', Text ''Employee'', Text ''Project'', Text ''Activity'',
                    Text ''Hours'', Text ''Date'']]\<rparr>,
    \<lparr>sheet_title = ''Customer Hours Summary'',
     sheet_rows = [[Text ''Customer'', Text ''TotalHours'', Text ''Percentage''],
                   [Text ''DUKE'', Number 1, Number 100]]\<rparr>]"
  by (simp add: customer_reports_workbook_def Let_def groupby_sum_def groupby_def
      List.map_filter_def key_customer_user_def key_detailed_def hours_def sort_descending_def)

lemma ex_unresolved_resolved:
  "process_timesheet_mappings (\<lambda>t. - 18000) (\<lambda>n x. x) ex_unresolved =
     Some ([\<lparr>t_activity = Some ''Install'', t_project = Some ''Tower'', t_user = None,
              t_customer = Some ''DUKE'', t_date = Some 20156, t_duration = Some 1\<rparr>], [])"
  by (simp add: process_timesheet_mappings_def ex_unresolved_def Let_def resolve_row_def
      dict_zip_def map_lookup_def date_only_def wall_clock_def calculate_breaks_from_raw_data_def
      dropna_def List.map_filter_def groupby_def group_record_def find_gaps.simps)

lemma ex_summary_empty:
  "summary_workbook (\<lambda>n x. x) [] =
     [\<lparr>sheet_title = ''Weekly Summary'',
       sheet_rows = [[], [Text ''METRIC'', Text ''VALUE''], [Text ''Total Hours'', Number 0],
                     [Text ''Total Employees'', Number 0], [Text ''Average Hours'', Number 0]]\<rparr>]"
  by (simp add: summary_workbook_def groupby_sum_def groupby_def List.map_filter_def)

text \<open>
  The run on one timesheet of one hour whose user id \<open>99\<close> is not in the Users frame:
  the row keeps its customer and loses its user, and the summary workbook reports no
  employee and zero hours.
\<close>

theorem rows_with_unresolved_ids_are_dropped_witness:
  "process_timesheet_mappings (\<lambda>t. - 18000) (\<lambda>n x. x) ex_unresolved =
     Some ([\<lparr>t_activity = Some ''Install'', t_project = Some ''Tower'', t_user = None,
              t_customer = Some ''DUKE'', t_date = Some 20156, t_duration = Some 1\<rparr>], []) \<and>
   summary_workbook (\<lambda>n x. x)
     [\<lparr>t_activity = Some ''Install'', t_project = Some ''Tower'', t_user = None,
       t_customer = Some ''DUKE'', t_date = Some 20156, t_duration = Some 1\<rparr>] =
     [\<lparr>sheet_title = ''Weekly Summary'',
       sheet_rows = [[], [Text ''METRIC'', Text ''VALUE''], [Text ''Total Hours'', Number 0],
                     [Text ''Total Employees'', Number 0], [Text ''Average Hours'', Number 0]]\<rparr>]"
proof -
  let ?df = "[\<lparr>t_activity = Some ''Install'', t_project = Some ''Tower'', t_user = None,
       t_customer = Some ''DUKE'', t_date = Some 20156, t_duration = Some (1 :: rat)\<rparr>]"
  have f: "Timesheets ex_unresolved =
             Some [\<lparr>user = ''99'', begin_dt = Some 1741528800, end_dt = Some 1741532400,
                     project = ''1'', activity = 1, duration = Some 3600\<rparr>]"
    "Activities ex_unresolved = Some [\<lparr>act_id = 1, act_name = Some ''Install''\<rparr>]"
    "Projects ex_unresolved =
       Some [\<lparr>proj_id = ''1'', proj_name = Some ''Tower'', parentTitle = Some ''DUKE''\<rparr>]"
    "Users ex_unresolved = Some [\<lparr>uid = ''7'', alias_name = Some ''ann''\<rparr>]"
    by (simp_all add: ex_unresolved_def)
  from rows_with_unresolved_ids_are_dropped [where tz = "\<lambda>t. - 18000" and rnd = "\<lambda>n x. x"
      and strftime_date = "\<lambda>d. []" and now = ex_now and roster_order = ex_roster, OF f]
  obtain timesheets_df breaks_df where
    p: "process_timesheet_mappings (\<lambda>t. - 18000) (\<lambda>n x. x) ex_unresolved =
          Some (timesheets_df, breaks_df)" and
    s: "summary_workbook (\<lambda>n x. x) timesheets_df =
          summary_workbook (\<lambda>n x. x) (filter (\<lambda>r. t_user r \<noteq> None) timesheets_df)"
    by blast
  from p have "timesheets_df = ?df" by (simp add: ex_unresolved_resolved)
  with s have "summary_workbook (\<lambda>n x. x) ?df = summary_workbook (\<lambda>n x. x) []" by simp
  then show ?thesis by (simp add: ex_unresolved_resolved ex_summary_empty)
qed


end
